theory Spec2Isabelle
  imports Main
begin

section \<open>Python values, dictionaries and errors\<close>

text \<open>
  The plugin works on dynamically typed property dictionaries. The values that occur in
  network entries, server properties and runtime properties are \<open>None\<close>, booleans,
  integers and strings. A dictionary is an association list in insertion order with
  pairwise distinct keys (Python dictionaries iterate in insertion order).
\<close>

datatype pyval = PNone | PBool bool | PInt int | PStr string

type_synonym pydict = "(string \<times> pyval) list"

text \<open>Python truthiness: \<open>bool(v)\<close>.\<close>

fun truthy :: "pyval \<Rightarrow> bool" where
  "truthy PNone = False"
| "truthy (PBool b) = b"
| "truthy (PInt i) = (i \<noteq> 0)"
| "truthy (PStr s) = (s \<noteq> [])"

text \<open>Python \<open>==\<close> on these values: a boolean equals the integer 0 or 1.\<close>

fun py_eq :: "pyval \<Rightarrow> pyval \<Rightarrow> bool" where
  "py_eq (PBool b) (PInt i) = (i = (if b then 1 else 0))"
| "py_eq (PInt i) (PBool b) = (i = (if b then 1 else 0))"
| "py_eq a b = (a = b)"

text \<open>\<open>d.get(k)\<close>, with \<open>None\<close> for a missing key.\<close>

definition dict_get :: "pydict \<Rightarrow> string \<Rightarrow> pyval" where
  "dict_get d k = (case map_of d k of None \<Rightarrow> PNone | Some v \<Rightarrow> v)"

text \<open>\<open>d.get(k, dflt)\<close>.\<close>

definition dict_get_default :: "pydict \<Rightarrow> string \<Rightarrow> pyval \<Rightarrow> pyval" where
  "dict_get_default d k dflt = (case map_of d k of None \<Rightarrow> dflt | Some v \<Rightarrow> v)"

text \<open>\<open>d[k] = v\<close>: an existing key keeps its position, a new key goes to the end.\<close>

fun dict_set :: "string \<Rightarrow> pyval \<Rightarrow> pydict \<Rightarrow> pydict" where
  "dict_set k v [] = [(k, v)]"
| "dict_set k v (p # ps) = (if fst p = k then (k, v) # ps else p # dict_set k v ps)"

text \<open>\<open>d.update(e)\<close>.\<close>

fun dict_update :: "pydict \<Rightarrow> pydict \<Rightarrow> pydict" where
  "dict_update d [] = d"
| "dict_update d (kv # e) = dict_update (dict_set (fst kv) (snd kv) d) e"

text \<open>
  The exceptions the modelled code raises. \<open>NonRecoverableError\<close> and
  \<open>OperationRetry\<close> are the orchestrator's two signals; the others are Python's own
  exceptions, which the code raises on malformed input. The message of a
  \<open>NonRecoverableError\<close> is a text, or, for a failed network validation, the list of the
  collected violations (the source renders that list with \<open>text_type\<close>).
\<close>

datatype pytype = TyBool | TyText

datatype violation =
    BothSwitches
  | MissingName
  | UnsupportedKey string pyval
  | UnsupportedType string pytype pyval

datatype message = Text string | NetworkFailedValidation "violation list"

datatype error =
    NonRecoverableError message
  | OperationRetry string
  | KeyError string
  | TypeError
  | AttributeError
  | ValueError

section \<open>The orchestrator context\<close>

text \<open>
  The expected-configuration snapshot written by \<open>poststart\<close> and \<open>update\<close>: the
  serialised network list is opaque here, the summary is a dictionary.
\<close>

record expected_configuration =
  ec_network :: "pyval list"
  ec_summary :: pydict

text \<open>
  The runtime properties of the instance, one optional field per key the code uses
  (\<open>None\<close> is an absent key). The value under \<open>networks\<close> is a list of
  dictionaries \<open>{name, mac, ip}\<close> or Python's \<open>None\<close> (\<open>Some None\<close>).
\<close>

record runtime_properties =
  rp_name :: "pyval option"
  rp_vsphere_server_id :: "pyval option"
  rp_resource_external :: "pyval option"
  rp_connected_nics :: "string list option"
  rp_networks :: "pydict list option option"
  rp_ip :: "pyval option"
  rp_public_ip :: "pyval option"
  rp_cpus :: "pyval option"
  rp_memory :: "pyval option"
  rp_expected_configuration :: "expected_configuration option"
  rp_network_update :: "pyval option"
  rp_spec_update :: "pyval option"
  rp_min_wait_time_start :: "nat option"

text \<open>\<open>runtime_properties.get(key)\<close> for a field holding a value.\<close>

definition rp_get :: "pyval option \<Rightarrow> pyval" where
  "rp_get f = (case f of None \<Rightarrow> PNone | Some v \<Rightarrow> v)"

text \<open>
  A related NIC node, as \<open>get_connected_networks\<close> reads it: the target instance id and
  the results of \<open>runtime_properties.get('connected_network')\<close> and
  \<open>runtime_properties.get('name')\<close> on the target.
\<close>

record rel_nic =
  target_id :: string
  target_connected_network :: "pydict option"
  target_name :: pyval

text \<open>
  The networking parameters: the value under \<open>connect_networks\<close> (\<open>None\<close> when the key
  is absent) and the other keys (\<open>domain\<close>, \<open>dns_servers\<close>).
\<close>

datatype networking = Networking (connect_networks: "pydict list option") (other_keys: pydict)

text \<open>A log record: the level, the format string and its arguments.\<close>

datatype level = Debug | Info | Warn

type_synonym log_record = "level \<times> string \<times> pyval list"

text \<open>
  The ambient \<open>ctx\<close>: the instance id, its runtime properties, the relationships of type
  \<open>server_connected_to_nic\<close> (what \<open>find_rels_by_type\<close> returns), the node properties
  \<open>enable_start_vm\<close>, \<open>networking\<close> and \<open>server\<close> (\<open>None\<close> for an absent key), and
  the records logged by the lifecycle operations (the log lines of the helper functions
  are left out).
\<close>

record ctx =
  instance_id :: string
  runtime :: runtime_properties
  nics_from_rels :: "rel_nic list"
  node_enable_start_vm :: "pyval option"
  node_networking :: "networking option"
  node_server :: "pydict option"
  logger :: "log_record list"

definition log :: "level \<Rightarrow> string \<Rightarrow> pyval list \<Rightarrow> ctx \<Rightarrow> ctx" where
  "log lvl fmt args c = c\<lparr>logger := logger c @ [(lvl, fmt, args)]\<rparr>"

section \<open>Identity resolver\<close>

text \<open>
  \<open>validate_vm_name\<close>: the compiled pattern is \<open>[^A-Za-z0-9\-]\<close>; the name is
  rejected when \<open>search\<close> finds a character outside that class.
\<close>

definition allowed_chars :: "char list" where
  "allowed_chars =
     ''ABCDEFGHIJKLMNOPQRSTUVWXYZ'' @ ''abcdefghijklmnopqrstuvwxyz'' @ ''0123456789'' @ ''-''"

definition search_forbidden :: "string \<Rightarrow> bool" where
  "search_forbidden s = list_ex (\<lambda>c. c \<notin> set allowed_chars) s"

definition name_error :: "string \<Rightarrow> error" where
  \<open>name_error vm_name = NonRecoverableError (Text
     (''Computer name must contain only A-Z, a-z, 0-9, and hyphens ("-"), and must not consist entirely of numbers. "''
        @ vm_name @ ''" was not valid.''))\<close>

definition validate_vm_name :: "string \<Rightarrow> error + unit" where
  "validate_vm_name vm_name =
     (if search_forbidden vm_name then Inl (name_error vm_name) else Inr ())"

text \<open>\<open>s.rsplit(sep, 1)\<close> unpacked into two names: \<open>None\<close> when there is no separator
  (the unpacking raises \<open>ValueError\<close>).\<close>

definition rsplit1 :: "char \<Rightarrow> string \<Rightarrow> (string \<times> string) option" where
  "rsplit1 sep s =
     (if sep \<in> set s
      then Some (rev (drop 1 (dropWhile (\<lambda>c. c \<noteq> sep) (rev s))),
                 rev (takeWhile (\<lambda>c. c \<noteq> sep) (rev s)))
      else None)"

text \<open>\<open>s[:k]\<close>: a negative bound counts from the end.\<close>

definition slice_to :: "string \<Rightarrow> int \<Rightarrow> string" where
  "slice_to s k = (if 0 \<le> k then take (nat k) s else take (length s - nat (- k)) s)"

text \<open>\<open>s.lower()\<close> on the ASCII letters.\<close>

definition lower_char :: "char \<Rightarrow> char" where
  "lower_char c =
     (case map_of (zip ''ABCDEFGHIJKLMNOPQRSTUVWXYZ'' ''abcdefghijklmnopqrstuvwxyz'') c of
        None \<Rightarrow> c | Some l \<Rightarrow> l)"

definition lower :: "string \<Rightarrow> string" where
  "lower s = map lower_char s"

text \<open>\<open>s.replace('_', '-')\<close>.\<close>

definition replace_underscores :: "string \<Rightarrow> string" where
  "replace_underscores s = map (\<lambda>c. if c = CHR ''_'' then CHR ''-'' else c) s"

text \<open>
  \<open>get_vm_name(server, os_family)\<close>. The name already stored on the instance wins; a
  configured name with a falsy \<open>add_scale_suffix\<close> is returned as it is; otherwise the
  name is built from a prefix and the suffix of the instance id and validated.
  \<open>os_family.lower()\<close> raises \<open>AttributeError\<close> on a value that is not a string,
  slicing or joining a prefix that is not a string raises \<open>TypeError\<close>.
\<close>

definition get_vm_name :: "ctx \<Rightarrow> pydict \<Rightarrow> pyval \<Rightarrow> error + pyval" where
  "get_vm_name c server os_family =
     (let vm_name = rp_get (rp_name (runtime c)) in
      if vm_name \<noteq> PNone then Inr vm_name
      else
        let configured_name = dict_get server ''name'';
            add_scale_suffix = dict_get_default server ''add_scale_suffix'' (PBool True)
        in
        if configured_name \<noteq> PNone \<and> \<not> truthy add_scale_suffix then Inr configured_name
        else
          (case rsplit1 CHR ''_'' (instance_id c) of
             None \<Rightarrow> Inl ValueError
           | Some (instance_name, id_suffix) \<Rightarrow>
               (let name_prefix =
                      (if truthy configured_name then configured_name else PStr instance_name)
                in
                case os_family of
                  PStr os \<Rightarrow>
                    (case name_prefix of
                       PStr prefix \<Rightarrow>
                         (let prefix' =
                                (if lower os = ''windows''
                                 then slice_to prefix (14 - (int (length id_suffix) + 1))
                                 else prefix);
                              joined = prefix' @ ''-'' @ id_suffix;
                              vm_name' =
                                (if CHR ''_'' \<in> set joined then replace_underscores joined
                                 else joined)
                          in
                          case validate_vm_name vm_name' of
                            Inl e \<Rightarrow> Inl e
                          | Inr _ \<Rightarrow> Inr (PStr vm_name'))
                     | _ \<Rightarrow> Inl TypeError)
                | _ \<Rightarrow> Inl AttributeError)))"

section \<open>Network topology resolver\<close>

text \<open>
  The inner loop of \<open>get_connected_networks\<close> over \<open>nics_from_props\<close>: an entry with
  the name of the relationship network and a truthy \<open>from_relationship\<close> is updated
  in place; \<open>prop_nic['name']\<close> raises \<open>KeyError\<close> on an entry without a name.
\<close>

fun merge_rel_nic :: "pydict \<Rightarrow> pydict list \<Rightarrow> error + pydict list" where
  "merge_rel_nic cn [] = Inr []"
| "merge_rel_nic cn (prop_nic # rest) =
     (case map_of prop_nic ''name'' of
        None \<Rightarrow> Inl (KeyError ''name'')
      | Some prop_name \<Rightarrow>
          (let prop_nic' =
                 (if py_eq (dict_get cn ''name'') prop_name
                     \<and> truthy (dict_get prop_nic ''from_relationship'')
                  then dict_update prop_nic cn else prop_nic)
           in case merge_rel_nic cn rest of
                Inl e \<Rightarrow> Inl e
              | Inr rest' \<Rightarrow> Inr (prop_nic' # rest')))"

text \<open>
  The outer loop over the related NICs. The state is the list \<open>nics_from_props\<close> and the
  runtime property \<open>connected_nics\<close>. After the inner loop the relationship network is
  appended to the list, whatever the inner loop did.
\<close>

fun connect_rel_nics ::
  "rel_nic list \<Rightarrow> pydict list \<Rightarrow> string list \<Rightarrow> error + (pydict list \<times> string list)" where
  "connect_rel_nics [] nics_from_props connected = Inr (nics_from_props, connected)"
| \<open>connect_rel_nics (rel # rels) nics_from_props connected =
     (case target_connected_network rel of
        None \<Rightarrow> Inl (NonRecoverableError (Text
          (''No "connect_network" specification for nic '' @ target_id rel @ ''.'')))
      | Some cn0 \<Rightarrow>
          if cn0 = [] then Inl (NonRecoverableError (Text
            (''No "connect_network" specification for nic '' @ target_id rel @ ''.'')))
          else
            (let connected_network_name = dict_get_default cn0 ''name'' (target_name rel) in
             if \<not> truthy connected_network_name then Inl (NonRecoverableError (Text
               (''No network name specified for nic '' @ target_id rel @ ''.'')))
             else
               (let cn = dict_set ''name'' connected_network_name cn0 in
                case merge_rel_nic cn nics_from_props of
                  Inl e \<Rightarrow> Inl e
                | Inr merged \<Rightarrow>
                    connect_rel_nics rels (merged @ [cn]) (connected @ [target_id rel]))))\<close>

definition get_connected_networks :: "ctx \<Rightarrow> pydict list \<Rightarrow> error + (pydict list \<times> ctx)" where
  "get_connected_networks c nics_from_props =
     (let connected0 = (case rp_connected_nics (runtime c) of None \<Rightarrow> [] | Some l \<Rightarrow> l) in
      case connect_rel_nics (nics_from_rels c) nics_from_props connected0 of
        Inl e \<Rightarrow> Inl e
      | Inr (nics, connected) \<Rightarrow>
          Inr (nics, c\<lparr>runtime := (runtime c)\<lparr>rp_connected_nics := Some connected\<rparr>\<rparr>))"

text \<open>The table \<open>network_validations\<close>: expected type and default of every key.\<close>

definition network_validations :: "(string \<times> pytype \<times> pyval) list" where
  "network_validations =
     [(''name'', TyText, PNone),
      (''from_relationship'', TyBool, PBool False),
      (''external'', TyBool, PBool False),
      (''management'', TyBool, PBool False),
      (''switch_distributed'', TyBool, PBool False),
      (''nsx_t_switch'', TyBool, PBool False),
      (''use_dhcp'', TyBool, PBool True),
      (''network'', TyText, PNone),
      (''gateway'', TyText, PNone),
      (''ip'', TyText, PNone)]"

fun isinstance :: "pyval \<Rightarrow> pytype \<Rightarrow> bool" where
  "isinstance (PBool b) TyBool = True"
| "isinstance (PStr s) TyText = True"
| "isinstance v t = False"

text \<open>\<open>del d[k]\<close> and the removal done by \<open>d.pop(k)\<close> on the validation table.\<close>

definition del_key :: "string \<Rightarrow> (string \<times> 'a) list \<Rightarrow> (string \<times> 'a) list" where
  "del_key k d = filter (\<lambda>p. fst p \<noteq> k) d"

text \<open>
  One round of the loop over the items of the network. The state is the remaining
  validation table, the collected messages and the network. The flag
  \<open>validation_error\<close> of the source is set exactly where a message is appended, so it is
  the non-emptiness of the collected messages (the header line of the source's list is
  not part of them).
\<close>

fun validate_item ::
  "(string \<times> pytype \<times> pyval) list \<times> violation list \<times> pydict \<Rightarrow> string \<times> pyval
     \<Rightarrow> (string \<times> pytype \<times> pyval) list \<times> violation list \<times> pydict" where
  "validate_item (validations, messages, net) (key, val) =
     (case map_of validations key of
        None \<Rightarrow> (validations, messages @ [UnsupportedKey key val], net)
      | Some (expected_type, default_value) \<Rightarrow>
          if \<not> truthy val \<and> expected_type \<noteq> TyBool
          then (del_key key validations, messages, dict_set key default_value net)
          else if \<not> isinstance (dict_get net key) expected_type
          then (del_key key validations,
                messages @ [UnsupportedType key expected_type (dict_get net key)], net)
          else (del_key key validations, messages, net))"

text \<open>Filling in the defaults of the keys left in the table.\<close>

fun fill_defaults :: "(string \<times> pytype \<times> pyval) list \<Rightarrow> pydict \<Rightarrow> pydict" where
  "fill_defaults [] net = net"
| "fill_defaults ((key, _, default_value) # rest) net =
     fill_defaults rest (dict_set key default_value net)"

definition validate_connect_network :: "pydict \<Rightarrow> error + pydict" where
  "validate_connect_network net =
     (let messages0 =
            (if truthy (dict_get net ''switch_distributed'') \<and> truthy (dict_get net ''nsx_t_switch'')
             then [BothSwitches] else []);
          no_name = (\<not> truthy (dict_get net ''name''));
          messages1 = (if no_name then messages0 @ [MissingName] else messages0);
          validations1 =
            (if no_name then del_key ''name'' network_validations else network_validations);
          (validations, messages, net') = foldl validate_item (validations1, messages1, net) net
      in if messages \<noteq> [] then Inl (NonRecoverableError (NetworkFailedValidation messages))
         else Inr (fill_defaults validations net'))"

text \<open>
  The reordering loop of \<open>handle_networks\<close>: every network is validated; an external one
  is inserted at the front of the new list, any other is appended. The source changes
  the list and its entries in place; the model returns the new ones.
\<close>

fun reorder_networks :: "pydict list \<Rightarrow> pydict list \<Rightarrow> error + pydict list" where
  "reorder_networks [] reordered = Inr reordered"
| "reorder_networks (net # rest) reordered =
     (case validate_connect_network net of
        Inl e \<Rightarrow> Inl e
      | Inr net' \<Rightarrow>
          (case map_of net' ''external'' of
             None \<Rightarrow> Inl (KeyError ''external'')
           | Some ext \<Rightarrow>
               if truthy ext then reorder_networks rest (net' # reordered)
               else reorder_networks rest (reordered @ [net'])))"

text \<open>\<open>networking.get('connect_networks', [])\<close>.\<close>

definition connect_networks_or_empty :: "networking \<Rightarrow> pydict list" where
  "connect_networks_or_empty n = (case connect_networks n of None \<Rightarrow> [] | Some l \<Rightarrow> l)"

text \<open>\<open>n.get(flag, False)\<close> as a condition.\<close>

definition flagged :: "string \<Rightarrow> pydict \<Rightarrow> bool" where
  "flagged flag n = truthy (dict_get_default n flag (PBool False))"

definition too_many :: "string \<Rightarrow> error" where
  "too_many kind =
     NonRecoverableError (Text (''No more than one '' @ kind @ '' network can be specified.''))"

definition handle_networks :: "ctx \<Rightarrow> networking \<Rightarrow> error + (pydict list \<times> ctx)" where
  "handle_networks c networking_parameters =
     (case get_connected_networks c (connect_networks_or_empty networking_parameters) of
        Inl e \<Rightarrow> Inl e
      | Inr (nets, c') \<Rightarrow>
          if nets \<noteq> [] then
            if length (filter (flagged ''external'') nets) > 1
            then Inl (too_many ''external'')
            else if length (filter (flagged ''management'') nets) > 1
            then Inl (too_many ''management'')
            else
              (case reorder_networks nets [] of
                 Inl e \<Rightarrow> Inl e
               | Inr reordered \<Rightarrow> Inr (reordered, c'))
          else Inr (nets, c'))"

section \<open>Platform objects and the client\<close>

text \<open>
  What the code reads from a platform VM object: its id and name, the hardware devices
  (\<open>config.hardware.device\<close>, with \<open>isinstance(device, VirtualEthernetCard)\<close> as a
  flag), the interfaces reported by the guest (\<open>guest.net\<close>),
  \<open>summary.guest.ipAddress\<close> (\<open>None\<close> when reading it raises \<open>AttributeError\<close>), and
  the serialised \<open>network\<close> and \<open>summary.config\<close>.
\<close>

record device =
  dev_key :: nat
  is_ethernet_card :: bool
  macAddress :: pyval

record guest_nic =
  gn_network :: pyval
  gn_ipAddress :: "string list"

record server_obj =
  so_id :: pyval
  so_name :: string
  so_devices :: "device list"
  so_guest_net :: "guest_nic list"
  so_summary_guest_ipAddress :: "pyval option"
  so_network :: "pyval list"
  so_summary_config :: pydict

text \<open>
  The collaborators that are not part of the modelled file are parameters: the platform
  client (look-ups, power state, resize, stop, delete, each mutating call returning the
  exception it raises, if any), the helper \<open>get_ip_from_vsphere_nic_ips\<close>, and
  \<open>utils.check_drift\<close> (as the truth value of the difference it returns) on the lists
  of attached and declared networks and on two configurations.
\<close>

datatype net_ref = NetName pyval | Sentinel nat

record client =
  get_server_by_id :: "pyval \<Rightarrow> server_obj option"
  get_server_by_name :: "pyval \<Rightarrow> server_obj option"
  is_server_guest_running :: "server_obj \<Rightarrow> bool"
  get_server_ip :: "server_obj \<Rightarrow> pyval \<Rightarrow> pyval"
  get_ip_from_vsphere_nic_ips :: "guest_nic \<Rightarrow> pyval"
  client_resize_server :: "server_obj option \<Rightarrow> pyval \<Rightarrow> pyval \<Rightarrow> error option"
  client_stop_server :: "server_obj \<Rightarrow> error option"
  client_delete_server :: "server_obj \<Rightarrow> error option"
  utils_check_drift_networks :: "net_ref list \<Rightarrow> net_ref list \<Rightarrow> bool"
  utils_check_drift_configuration ::
    "expected_configuration option \<Rightarrow> expected_configuration \<Rightarrow> bool"

section \<open>Lifecycle orchestrator\<close>

definition get_server_by_context ::
  "client \<Rightarrow> ctx \<Rightarrow> pydict \<Rightarrow> pyval \<Rightarrow> error + server_obj option" where
  "get_server_by_context cl c server os_family =
     (case rp_vsphere_server_id (runtime c) of
        Some server_id \<Rightarrow> Inr (get_server_by_id cl server_id)
      | None \<Rightarrow>
          if truthy os_family then
            (case get_vm_name c server os_family of
               Inl e \<Rightarrow> Inl e
             | Inr vm_name \<Rightarrow> Inr (get_server_by_name cl vm_name))
          else Inl (NonRecoverableError
                 (Text ''os_family must be provided if the VM might not exist'')))"

definition stop :: "client \<Rightarrow> ctx \<Rightarrow> pydict \<Rightarrow> pyval \<Rightarrow> bool \<Rightarrow> error + ctx" where
  "stop cl c server os_family force_stop =
     (let existing_resource = rp_get (rp_resource_external (runtime c)) in
      if truthy existing_resource \<and> \<not> force_stop
      then Inr (log Warn
             ''Not stopping because use_external_resource is True and force_stop is False.'' [] c)
      else
        (let c1 = (if force_stop then log Warn ''The parameter force_stop is True.'' [] c else c)
         in
         case get_server_by_context cl c1 server os_family of
           Inl e \<Rightarrow> Inl e
         | Inr None \<Rightarrow>
             if truthy (rp_get (rp_vsphere_server_id (runtime c1)))
             then Inl (NonRecoverableError (Text
                    (''Cannot stop server - server doesn't exist for node: '' @ instance_id c1)))
             else Inr c1
         | Inr (Some server_obj) \<Rightarrow>
             (case get_vm_name c1 server os_family of
                Inl e \<Rightarrow> Inl e
              | Inr vm_name \<Rightarrow>
                  (let c2 = log Info ''Stopping server {name}'' [vm_name] c1 in
                   case client_stop_server cl server_obj of
                     Some e \<Rightarrow> Inl e
                   | None \<Rightarrow> Inr (log Info ''Stopped server {name}'' [vm_name] c2)))))"

definition delete :: "client \<Rightarrow> ctx \<Rightarrow> pydict \<Rightarrow> pyval \<Rightarrow> bool \<Rightarrow> error + ctx" where
  "delete cl c server os_family force_delete =
     (if truthy (rp_get (rp_resource_external (runtime c))) \<and> \<not> force_delete
      then Inr (log Info ''Used existing resource.'' [] c)
      else
        (let c1 = (if force_delete then log Info ''Delete is forced.'' [] c else c) in
         case get_server_by_context cl c1 server os_family of
           Inl e \<Rightarrow> Inl e
         | Inr None \<Rightarrow>
             if truthy (rp_get (rp_vsphere_server_id (runtime c1)))
             then Inr (log Info ''Cannot delete server - server doesn't exist for node: {0}''
                    [PStr (instance_id c1)] c1)
             else Inr c1
         | Inr (Some server_obj) \<Rightarrow>
             (case get_vm_name c1 server os_family of
                Inl e \<Rightarrow> Inl e
              | Inr vm_name \<Rightarrow>
                  (let c2 = log Info ''Preparing to delete server {name}'' [vm_name] c1 in
                   case client_delete_server cl server_obj of
                     Some e \<Rightarrow> Inl e
                   | None \<Rightarrow>
                       Inr (log Info ''Successfully deleted server {name}'' [vm_name] c2)))))"

text \<open>
  \<open>runtime_properties['expected_configuration']['summary'][key] = value\<close>: a
  \<open>KeyError\<close> when no expected configuration is stored.
\<close>

definition set_expected_summary :: "string \<Rightarrow> pyval \<Rightarrow> ctx \<Rightarrow> error + ctx" where
  "set_expected_summary key val c =
     (case rp_expected_configuration (runtime c) of
        None \<Rightarrow> Inl (KeyError ''expected_configuration'')
      | Some ec \<Rightarrow>
          Inr (c\<lparr>runtime := (runtime c)\<lparr>rp_expected_configuration :=
                 Some (ec\<lparr>ec_summary := dict_set key val (ec_summary ec)\<rparr>)\<rparr>\<rparr>))"

definition cannot_resize :: "ctx \<Rightarrow> error" where
  "cannot_resize c = NonRecoverableError (Text
     (''Cannot resize server - server doesn't exist for node: '' @ instance_id c))"

text \<open>
  \<open>resize_server\<close>: with no truthy size it logs and returns. Otherwise the platform
  resize is followed by the loop over \<open>'cpus', 'memory'\<close>, which stores each truthy
  value in the runtime properties and in the expected summary.
\<close>

definition resize_server ::
  "client \<Rightarrow> ctx \<Rightarrow> pydict \<Rightarrow> pyval \<Rightarrow> pyval \<Rightarrow> pyval \<Rightarrow> error + ctx" where
  "resize_server cl c server os_family cpus memory =
     (if \<not> (truthy cpus \<or> truthy memory)
      then Inr (log Info ''Attempt to resize Server with no sizes specified'' [] c)
      else
        (case get_server_by_context cl c server os_family of
           Inl e \<Rightarrow> Inl e
         | Inr None \<Rightarrow> Inl (cannot_resize c)
         | Inr (Some server_obj) \<Rightarrow>
             (case client_resize_server cl (Some server_obj) cpus memory of
                Some e \<Rightarrow> Inl e
              | None \<Rightarrow>
                  (case (if truthy cpus
                         then set_expected_summary ''numCpu'' cpus
                                (c\<lparr>runtime := (runtime c)\<lparr>rp_cpus := Some cpus\<rparr>\<rparr>)
                         else Inr c) of
                     Inl e \<Rightarrow> Inl e
                   | Inr c1 \<Rightarrow>
                       if truthy memory
                       then set_expected_summary ''memorySizeMB'' memory
                              (c1\<lparr>runtime := (runtime c1)\<lparr>rp_memory := Some memory\<rparr>\<rparr>)
                       else Inr c1))))"

text \<open>
  The deprecated \<open>resize\<close>: the sizes are read from the runtime properties; it raises
  when neither is truthy and does not touch the expected configuration.
\<close>

definition resize :: "client \<Rightarrow> ctx \<Rightarrow> pydict \<Rightarrow> pyval \<Rightarrow> error + ctx" where
  "resize cl c server os_family =
     (let c0 = log Warn
        ''This operation may be removed at any point from cloudify-vsphere-plugin==3. Please use resize_server (cloudify.interfaces.modify.resize) instead.''
        [] c
      in
      case get_server_by_context cl c0 server os_family of
        Inl e \<Rightarrow> Inl e
      | Inr None \<Rightarrow> Inl (cannot_resize c0)
      | Inr (Some server_obj) \<Rightarrow>
          (case get_vm_name c0 server os_family of
             Inl e \<Rightarrow> Inl e
           | Inr vm_name \<Rightarrow>
               (let cpus = rp_get (rp_cpus (runtime c0));
                    memory = rp_get (rp_memory (runtime c0))
                in
                if truthy cpus \<or> truthy memory then
                  (let c1 = log Info
                     ''Preparing to resize server {name}, with cpus: {cpus}, and memory: {memory}''
                     [vm_name,
                      if truthy cpus then cpus else PStr ''no changes'',
                      if truthy memory then memory else PStr ''no changes''] c0
                   in
                   case client_resize_server cl (Some server_obj) cpus memory of
                     Some e \<Rightarrow> Inl e
                   | None \<Rightarrow> Inr (log Info ''Succeeded resizing server {name}.'' [vm_name] c1))
                else Inl (NonRecoverableError
                       (Text ''Server resize parameters should be specified.'')))))"

section \<open>Readiness poller\<close>


definition pop_min_wait_time_start :: "ctx \<Rightarrow> ctx" where
  "pop_min_wait_time_start c = c\<lparr>runtime := (runtime c)\<lparr>rp_min_wait_time_start := None\<rparr>\<rparr>"










section \<open>Drift detector and reconciler\<close>

text \<open>
  The attached networks as \<open>check_drift\<close> collects them: for every Ethernet device the
  name of the first persisted network with the device's MAC address, or a fresh
  \<open>uuid.uuid4()\<close> when there is none. A UUID object equals no network name; the model
  tags it with the position of the device. The persisted list \<open>None\<close> stands for
  Python's \<open>None\<close>, which cannot be iterated.
\<close>

fun existing_networks_of :: "nat \<Rightarrow> device list \<Rightarrow> pydict list option \<Rightarrow> error + net_ref list" where
  "existing_networks_of i [] networks = Inr []"
| "existing_networks_of i (dev # rest) networks =
     (if is_ethernet_card dev then
        (case networks of
           None \<Rightarrow> Inl TypeError
         | Some nets \<Rightarrow>
             (case existing_networks_of (Suc i) rest networks of
                Inl e \<Rightarrow> Inl e
              | Inr refs \<Rightarrow>
                  Inr ((case find (\<lambda>network. py_eq (macAddress dev) (dict_get network ''mac'')) nets of
                          Some network \<Rightarrow> NetName (dict_get network ''name'')
                        | None \<Rightarrow> Sentinel i) # refs)))
      else existing_networks_of (Suc i) rest networks)"

text \<open>\<open>runtime_properties.get('networks', [])\<close>.\<close>

definition persisted_networks :: "ctx \<Rightarrow> pydict list option" where
  "persisted_networks c = (case rp_networks (runtime c) of None \<Rightarrow> Some [] | Some v \<Rightarrow> v)"

text \<open>
  One side of the comparison of the declared sizes with the expected summary:
  \<open>value and value != expected_configuration['summary'][key]\<close>.
\<close>

definition summary_differs ::
  "expected_configuration option \<Rightarrow> pyval \<Rightarrow> string \<Rightarrow> error + bool" where
  "summary_differs expected val key =
     (if \<not> truthy val then Inr False
      else
        (case expected of
           None \<Rightarrow> Inl TypeError
         | Some ec \<Rightarrow>
             (case map_of (ec_summary ec) key of
                None \<Rightarrow> Inl (KeyError key)
              | Some x \<Rightarrow> Inr (\<not> py_eq val x))))"

definition node_server_get :: "ctx \<Rightarrow> string \<Rightarrow> pyval" where
  "node_server_get c key = (case node_server c of None \<Rightarrow> PNone | Some server \<Rightarrow> dict_get server key)"

definition node_connect_networks :: "ctx \<Rightarrow> pydict list" where
  "node_connect_networks c =
     (case node_networking c of None \<Rightarrow> [] | Some n \<Rightarrow> connect_networks_or_empty n)"

text \<open>
  The condition on the declared sizes:
  \<open>(memory and memory != expected['summary']['memorySizeMB']) or
     (cpus and cpus != expected['summary']['numCpu'])\<close>.
\<close>

definition spec_drift :: "ctx \<Rightarrow> error + bool" where
  "spec_drift c =
     (let expected_configuration = rp_expected_configuration (runtime c);
          memory = node_server_get c ''memory'';
          cpus = node_server_get c ''cpus''
      in
      case summary_differs expected_configuration memory ''memorySizeMB'' of
        Inl e \<Rightarrow> Inl e
      | Inr memory_differs \<Rightarrow>
          if memory_differs then Inr True
          else summary_differs expected_configuration cpus ''numCpu'')"

text \<open>
  \<open>check_drift\<close>: the result is the truth value of what the source returns, with the
  context in which \<open>network_update\<close> and \<open>spec_update\<close> are set.
\<close>

definition check_drift :: "client \<Rightarrow> ctx \<Rightarrow> error + (bool \<times> ctx)" where
  "check_drift cl c =
     (let server_id = rp_get (rp_vsphere_server_id (runtime c)) in
      if \<not> truthy server_id
      then Inl (NonRecoverableError (Text ''Instance not configured correctly''))
      else
        (case get_server_by_id cl server_id of
           None \<Rightarrow> Inl AttributeError
         | Some server_obj \<Rightarrow>
             (let expected_configuration = rp_expected_configuration (runtime c);
                  current_configuration =
                    \<lparr>ec_network = so_network server_obj,
                     ec_summary = so_summary_config server_obj\<rparr>
              in
              case existing_networks_of 0 (so_devices server_obj) (persisted_networks c) of
                Inl e \<Rightarrow> Inl e
              | Inr existing_networks \<Rightarrow>
                  (let new_networks =
                         map (\<lambda>network. NetName (dict_get network ''name''))
                           (node_connect_networks c);
                       network_diff =
                         utils_check_drift_networks cl existing_networks new_networks;
                       c1 = (if network_diff
                             then c\<lparr>runtime := (runtime c)\<lparr>rp_network_update :=
                                    Some (PBool True)\<rparr>\<rparr>
                             else c)
                   in
                   case spec_drift c of
                     Inl e \<Rightarrow> Inl e
                   | Inr spec_differs \<Rightarrow>
                       (let c2 = (if spec_differs
                                  then c1\<lparr>runtime := (runtime c1)\<lparr>rp_spec_update :=
                                         Some (PBool True)\<rparr>\<rparr>
                                  else c1)
                        in
                        if network_diff \<or> spec_differs then Inr (True, c2)
                        else Inr (utils_check_drift_configuration cl
                                    expected_configuration current_configuration, c2))))))"

text \<open>\<open>x in xs\<close> on a list of values.\<close>

definition py_in :: "pyval \<Rightarrow> pyval list \<Rightarrow> bool" where
  "py_in x xs = list_ex (py_eq x) xs"

text \<open>
  The networks \<open>update\<close> finds attached: the names of the persisted networks whose MAC
  address a device bears.
\<close>

fun real_networks_of :: "device list \<Rightarrow> pydict list option \<Rightarrow> error + pyval list" where
  "real_networks_of [] networks = Inr []"
| "real_networks_of (dev # rest) networks =
     (if is_ethernet_card dev then
        (case networks of
           None \<Rightarrow> Inl TypeError
         | Some nets \<Rightarrow>
             (case real_networks_of rest networks of
                Inl e \<Rightarrow> Inl e
              | Inr names \<Rightarrow>
                  Inr ((case find (\<lambda>network. py_eq (macAddress dev) (dict_get network ''mac'')) nets of
                          Some network \<Rightarrow> [dict_get network ''name'']
                        | None \<Rightarrow> []) @ names)))
      else real_networks_of rest networks)"

text \<open>
  The devices \<open>update\<close> removes: an Ethernet device whose persisted network is in
  \<open>to_remove\<close>, and every Ethernet device that no persisted network defines.
\<close>

fun nics_for_remove_of ::
  "pyval list \<Rightarrow> device list \<Rightarrow> pydict list option \<Rightarrow> error + device list" where
  "nics_for_remove_of to_remove [] networks = Inr []"
| "nics_for_remove_of to_remove (dev # rest) networks =
     (if is_ethernet_card dev then
        (case networks of
           None \<Rightarrow> Inl TypeError
         | Some nets \<Rightarrow>
             (case nics_for_remove_of to_remove rest networks of
                Inl e \<Rightarrow> Inl e
              | Inr nics \<Rightarrow>
                  Inr ((case find (\<lambda>network. py_eq (macAddress dev) (dict_get network ''mac'')) nets of
                          Some network \<Rightarrow>
                            if py_in (dict_get network ''name'') to_remove then [dev] else []
                        | None \<Rightarrow> [dev]) @ nics)))
      else nics_for_remove_of to_remove rest networks)"

record nic_plan =
  to_add :: "pyval list"
  to_remove :: "pyval list"
  nics_for_remove :: "device list"
  netcnt :: int

text \<open>The spec part of \<open>update\<close>; the key \<open>VSPHERE_SERVER_ID\<close> is read by subscript.\<close>

definition update_spec :: "client \<Rightarrow> ctx \<Rightarrow> error + ctx" where
  "update_spec cl c =
     (let cpus = node_server_get c ''cpus'';
          memory = node_server_get c ''memory''
      in
      case rp_vsphere_server_id (runtime c) of
        None \<Rightarrow> Inl (KeyError ''vsphere_server_id'')
      | Some server_id \<Rightarrow>
          (case client_resize_server cl (get_server_by_id cl server_id) cpus memory of
             Some e \<Rightarrow> Inl e
           | None \<Rightarrow>
               (case set_expected_summary ''memorySizeMB'' memory
                       (c\<lparr>runtime := (runtime c)\<lparr>rp_cpus := Some cpus,
                                                   rp_memory := Some memory\<rparr>\<rparr>) of
                  Inl e \<Rightarrow> Inl e
                | Inr c1 \<Rightarrow> set_expected_summary ''numCpu'' cpus c1)))"

text \<open>\<open>ctx.node.properties.get('networking', {})\<close>.\<close>

definition node_networking_or_empty :: "ctx \<Rightarrow> networking" where
  "node_networking_or_empty c =
     (case node_networking c of None \<Rightarrow> Networking None [] | Some n \<Rightarrow> n)"

text \<open>
  The network part of \<open>update\<close> up to the removal set: the attached networks, the
  re-resolved declared topology, the names to add and to remove, and the devices to
  remove.
\<close>

definition update_networks :: "client \<Rightarrow> ctx \<Rightarrow> error + (nic_plan \<times> ctx)" where
  "update_networks cl c =
     (case rp_vsphere_server_id (runtime c) of
        None \<Rightarrow> Inl (KeyError ''vsphere_server_id'')
      | Some server_id \<Rightarrow>
          (case get_server_by_id cl server_id of
             None \<Rightarrow> Inl AttributeError
           | Some server_obj \<Rightarrow>
               (let networks = persisted_networks c in
                case real_networks_of (so_devices server_obj) networks of
                  Inl e \<Rightarrow> Inl e
                | Inr real_networks \<Rightarrow>
                    (case handle_networks c (node_networking_or_empty c) of
                       Inl e \<Rightarrow> Inl e
                     | Inr (new_networks, c1) \<Rightarrow>
                         (let new_network_names =
                                map (\<lambda>network. dict_get network ''name'') new_networks;
                              to_remove' =
                                filter (\<lambda>network. \<not> py_in network new_network_names)
                                  real_networks;
                              to_add' =
                                filter (\<lambda>network. \<not> py_in network real_networks)
                                  new_network_names
                          in
                          case nics_for_remove_of to_remove' (so_devices server_obj) networks of
                            Inl e \<Rightarrow> Inl e
                          | Inr nics \<Rightarrow>
                              Inr (\<lparr>to_add = to_add', to_remove = to_remove',
                                    nics_for_remove = nics,
                                    netcnt = int (length (filter is_ethernet_card
                                                    (so_devices server_obj)))
                                             - int (length nics)\<rparr>, c1))))))"

text \<open>
  \<open>update\<close> up to the computation of the device changes: both markers are popped, a
  truthy \<open>spec_update\<close> runs the spec part, a truthy \<open>network_update\<close> the network part.
  The reconfiguration request that follows and the re-reading of the platform object
  belong to the platform client and are not modelled.
\<close>

definition pop_update_markers :: "ctx \<Rightarrow> ctx" where
  "pop_update_markers c =
     c\<lparr>runtime := (runtime c)\<lparr>rp_spec_update := None, rp_network_update := None\<rparr>\<rparr>"

definition update :: "client \<Rightarrow> ctx \<Rightarrow> error + (nic_plan option \<times> ctx)" where
  "update cl c =
     (let spec_update = rp_get (rp_spec_update (runtime c));
          network_update = rp_get (rp_network_update (runtime c));
          c0 = pop_update_markers c
      in
      case (if truthy spec_update then update_spec cl c0 else Inr c0) of
        Inl e \<Rightarrow> Inl e
      | Inr c1 \<Rightarrow>
          if truthy network_update then
            (case update_networks cl c1 of
               Inl e \<Rightarrow> Inl e
             | Inr (plan, c2) \<Rightarrow> Inr (Some plan, c2))
          else Inr (None, c1))"

section \<open>Auxiliary notions for the proofs\<close>

text \<open>A validation table out of which entries of \<open>network_validations\<close> were removed.\<close>

definition sub_table :: "(string \<times> pytype \<times> pyval) list \<Rightarrow> bool" where
  "sub_table V = (\<forall>k x. map_of V k = Some x \<longrightarrow> map_of network_validations k = Some x)"

section \<open>The violations of a network entry, one item at a time\<close>

text \<open>
  The violations of one item of a network entry against a validation table: a key the
  table does not know, or a value of the wrong type (a falsy value of a key that is not
  boolean is replaced by the default and is no violation). Each item is judged on its
  own, with no state.
\<close>

definition item_violations :: "(string \<times> pytype \<times> pyval) list \<Rightarrow> string \<times> pyval \<Rightarrow> violation list" where
  "item_violations table item =
     (case map_of table (fst item) of
        None \<Rightarrow> [UnsupportedKey (fst item) (snd item)]
      | Some (expected_type, default_value) \<Rightarrow>
          if (truthy (snd item) \<or> expected_type = TyBool) \<and> \<not> isinstance (snd item) expected_type
          then [UnsupportedType (fst item) expected_type (snd item)]
          else [])"

text \<open>
  All violations of a network entry: the conflict of \<open>switch_distributed\<close> and
  \<open>nsx_t_switch\<close>, the missing name, and the violations of every item, in the order of
  the entry. An entry without a name is judged against the table without the key
  \<open>name\<close>, as the source deletes that key.
\<close>

definition all_violations :: "pydict \<Rightarrow> violation list" where
  "all_violations net =
     (if truthy (dict_get net ''switch_distributed'') \<and> truthy (dict_get net ''nsx_t_switch'')
      then [BothSwitches] else [])
     @ (if truthy (dict_get net ''name'') then [] else [MissingName])
     @ concat (map (item_violations
                 (if truthy (dict_get net ''name'') then network_validations
                  else del_key ''name'' network_validations)) net)"

text \<open>\<open>runtime_properties['expected_configuration']['summary'].get(key)\<close>, when stored.\<close>

definition expected_summary_get :: "ctx \<Rightarrow> string \<Rightarrow> pyval option" where
  "expected_summary_get c key =
     (case rp_expected_configuration (runtime c) of
        None \<Rightarrow> None
      | Some ec \<Rightarrow> map_of (ec_summary ec) key)"

section \<open>Example inputs\<close>

definition rp_empty :: runtime_properties where
  "rp_empty = \<lparr>rp_name = None, rp_vsphere_server_id = None, rp_resource_external = None,
     rp_connected_nics = None, rp_networks = None, rp_ip = None, rp_public_ip = None,
     rp_cpus = None, rp_memory = None, rp_expected_configuration = None,
     rp_network_update = None, rp_spec_update = None, rp_min_wait_time_start = None\<rparr>"

definition ctx_of :: "string \<Rightarrow> runtime_properties \<Rightarrow> ctx" where
  "ctx_of iid rp = \<lparr>instance_id = iid, runtime = rp, nics_from_rels = [],
     node_enable_start_vm = None, node_networking = None, node_server = None, logger = []\<rparr>"

text \<open>A related NIC on the network \<open>net1\<close>, and a declared network that refers to it.\<close>

definition rel_net1 :: rel_nic where
  "rel_net1 = \<lparr>target_id = ''nic_1'',
     target_connected_network =
       Some [(''name'', PStr ''net1''), (''switch_distributed'', PBool True)],
     target_name = PNone\<rparr>"

definition declared_net1 :: pydict where
  "declared_net1 = [(''name'', PStr ''net1''), (''from_relationship'', PBool True)]"

text \<open>The input \<open>[{name: a}, {name: b, external: True}]\<close> and its resolved entries.\<close>

definition net_a :: pydict where
  "net_a = [(''name'', PStr ''a'')]"

definition net_b :: pydict where
  "net_b = [(''name'', PStr ''b''), (''external'', PBool True)]"

definition resolved_a :: pydict where
  "resolved_a =
     [(''name'', PStr ''a''), (''from_relationship'', PBool False), (''external'', PBool False),
      (''management'', PBool False), (''switch_distributed'', PBool False),
      (''nsx_t_switch'', PBool False), (''use_dhcp'', PBool True), (''network'', PNone),
      (''gateway'', PNone), (''ip'', PNone)]"

definition resolved_b :: pydict where
  "resolved_b =
     [(''name'', PStr ''b''), (''external'', PBool True), (''from_relationship'', PBool False),
      (''management'', PBool False), (''switch_distributed'', PBool False),
      (''nsx_t_switch'', PBool False), (''use_dhcp'', PBool True), (''network'', PNone),
      (''gateway'', PNone), (''ip'', PNone)]"

definition ctx_plain :: ctx where
  "ctx_plain = ctx_of ''web_0042'' rp_empty"

definition ctx_plain_resolved :: ctx where
  "ctx_plain_resolved = ctx_of ''web_0042'' (rp_empty\<lparr>rp_connected_nics := Some []\<rparr>)"

text \<open>A network entry with five violations, and networks with conflicting flags.\<close>

definition net_malformed :: pydict where
  "net_malformed =
     [(''name'', PStr ''''), (''foo'', PInt 1), (''external'', PStr ''yes''),
      (''switch_distributed'', PBool True), (''nsx_t_switch'', PBool True)]"

definition net_c :: pydict where
  "net_c = [(''name'', PStr ''c''), (''external'', PBool True), (''management'', PBool True)]"

definition net_d :: pydict where
  "net_d = [(''name'', PStr ''d''), (''management'', PBool True)]"

text \<open>
  A platform on which no VM is found, and a platform that finds the given VM, running.
  The helper \<open>get_ip_from_vsphere_nic_ips\<close> gives the first address of an interface;
  \<open>utils.check_drift\<close> reports a difference between two lists with different
  elements, and between two different configurations.
\<close>

definition client_gone :: client where
  "client_gone =
     \<lparr>get_server_by_id = (\<lambda>_. None),
      get_server_by_name = (\<lambda>_. None),
      is_server_guest_running = (\<lambda>_. False),
      get_server_ip = (\<lambda>_ _. PNone),
      get_ip_from_vsphere_nic_ips =
        (\<lambda>nic. case gn_ipAddress nic of [] \<Rightarrow> PNone | ip # _ \<Rightarrow> PStr ip),
      client_resize_server = (\<lambda>_ _ _. None),
      client_stop_server = (\<lambda>_. None),
      client_delete_server = (\<lambda>_. None),
      utils_check_drift_networks = (\<lambda>a b. set a \<noteq> set b),
      utils_check_drift_configuration = (\<lambda>a b. a \<noteq> Some b)\<rparr>"

definition client_with :: "server_obj \<Rightarrow> client" where
  "client_with server_obj =
     client_gone\<lparr>get_server_by_id := (\<lambda>_. Some server_obj),
                 is_server_guest_running := (\<lambda>_. True)\<rparr>"

definition vm_42 :: server_obj where
  "vm_42 =
     \<lparr>so_id = PStr ''vm-42'', so_name = ''web-0042'', so_devices = [], so_guest_net = [],
      so_summary_guest_ipAddress = None, so_network = [],
      so_summary_config = [(''numCpu'', PInt 2), (''memorySizeMB'', PInt 2048)]\<rparr>"

text \<open>An instance with a stored server id and name, and one flagged as an external resource.\<close>

definition rp_created :: runtime_properties where
  "rp_created =
     rp_empty\<lparr>rp_name := Some (PStr ''web-0042''), rp_vsphere_server_id := Some (PStr ''vm-42''),
              rp_networks := Some (Some []),
              rp_expected_configuration :=
                Some \<lparr>ec_network = [],
                      ec_summary = [(''numCpu'', PInt 2), (''memorySizeMB'', PInt 2048)]\<rparr>\<rparr>"

definition ctx_created :: ctx where
  "ctx_created = ctx_of ''web_0042'' rp_created"

definition ctx_external :: ctx where
  "ctx_external = ctx_of ''web_0042'' (rp_created\<lparr>rp_resource_external := Some (PBool True)\<rparr>)"

text \<open>The instance with 4 CPUs requested through the runtime properties.\<close>

definition ctx_cpus4 :: ctx where
  "ctx_cpus4 = ctx_of ''web_0042'' (rp_created\<lparr>rp_cpus := Some (PInt 4)\<rparr>)"





text \<open>
  A VM with one Ethernet device whose MAC address is not the one stored for \<open>net1\<close>,
  the instance with \<open>net1\<close> stored and declared, and that instance after
  \<open>check_drift\<close>.
\<close>

definition dev_foreign :: device where
  "dev_foreign =
     \<lparr>dev_key = 4001, is_ethernet_card = True, macAddress = PStr ''BB:BB:BB:BB:BB:BB''\<rparr>"

definition vm_foreign :: server_obj where
  "vm_foreign = vm_42\<lparr>so_devices := [dev_foreign]\<rparr>"

definition ctx_net1 :: ctx where
  "ctx_net1 =
     (ctx_of ''web_0042''
        (rp_created\<lparr>rp_networks :=
           Some (Some [[(''name'', PStr ''net1''), (''mac'', PStr ''AA:AA:AA:AA:AA:AA'')]])\<rparr>))
       \<lparr>node_networking := Some (Networking (Some [[(''name'', PStr ''net1'')]]) [])\<rparr>"

definition ctx_net1_drift :: ctx where
  "ctx_net1_drift =
     ctx_net1\<lparr>runtime := (runtime ctx_net1)\<lparr>rp_network_update := Some (PBool True)\<rparr>\<rparr>"

section \<open>Dictionaries and the validation loop: auxiliary facts\<close>

lemma map_of_dict_set: "map_of (dict_set k v d) k' = (if k' = k then Some v else map_of d k')"
  by (induction d) auto

lemma dict_get_dict_set: "dict_get (dict_set k v d) k' = (if k' = k then v else dict_get d k')"
  by (simp add: dict_get_def map_of_dict_set)

lemma map_of_del_key: "map_of (del_key k d) k' = (if k' = k then None else map_of d k')"
  by (induction d) (auto simp: del_key_def)

lemma validate_item_messages:
  "validate_item (V, M, N) item = (V', M', N') \<Longrightarrow> \<exists>extra. M' = M @ extra"
  by (cases item) (auto split: option.splits if_splits)

lemma fold_validate_messages:
  "foldl validate_item (V, M, N) items = (V', M', N') \<Longrightarrow> \<exists>extra. M' = M @ extra"
proof (induction items arbitrary: V M N)
  case Nil
  then show ?case by simp
next
  case (Cons item items)
  obtain V1 M1 N1 where step: "validate_item (V, M, N) item = (V1, M1, N1)"
    by (cases "validate_item (V, M, N) item") auto
  with Cons.prems have "foldl validate_item (V1, M1, N1) items = (V', M', N')" by simp
  from Cons.IH [OF this] validate_item_messages [OF step] show ?case by auto
qed

lemma sub_table_del_key: "sub_table V \<Longrightarrow> sub_table (del_key k V)"
  by (simp add: sub_table_def map_of_del_key)

lemma validate_item_sub_table:
  "validate_item (V, M, N) item = (V', M', N') \<Longrightarrow> sub_table V \<Longrightarrow> sub_table V'"
  by (cases item) (auto split: option.splits if_splits simp: sub_table_del_key)

lemma validate_item_bool_key:
  assumes "validate_item (V, M, N) (key, val) = (V', [], N')"
    and "sub_table V" and "map_of network_validations k = Some (TyBool, d)"
  shows "map_of N' k = map_of N k"
    and "key = k \<Longrightarrow> map_of V' k = None \<and> (\<exists>b. map_of N k = Some (PBool b))"
    and "key \<noteq> k \<Longrightarrow> map_of V' k = map_of V k"
  using assms
  apply (auto split: option.splits if_splits simp: map_of_dict_set map_of_del_key sub_table_def
       dict_get_def)
  subgoal for x by (cases x) auto
  done


lemma fold_validate_bool_key:
  assumes "foldl validate_item (V, [], N) items = (V', [], N')"
    and "sub_table V" and "map_of network_validations k = Some (TyBool, d)"
  shows "map_of N' k = map_of N k
    \<and> (k \<in> fst ` set items \<longrightarrow> map_of V' k = None \<and> (\<exists>b. map_of N k = Some (PBool b)))
    \<and> (k \<notin> fst ` set items \<longrightarrow> map_of V' k = map_of V k)
    \<and> (map_of V k = None \<longrightarrow> map_of V' k = None)"
  using assms
proof (induction items arbitrary: V N)
  case Nil
  then show ?case by simp
next
  case (Cons item items)
  obtain key val where item: "item = (key, val)" by (cases item)
  obtain V1 M1 N1 where step: "validate_item (V, [], N) (key, val) = (V1, M1, N1)"
    by (cases "validate_item (V, [], N) (key, val)") auto
  with Cons.prems(1) item have rest: "foldl validate_item (V1, M1, N1) items = (V', [], N')"
    by simp
  from fold_validate_messages [OF rest] have M1: "M1 = []" by simp
  have sub1: "sub_table V1" using validate_item_sub_table step Cons.prems(2) by blast
  note IH = Cons.IH [OF rest [unfolded M1] sub1 Cons.prems(3)]
  note S = validate_item_bool_key [OF step [unfolded M1] Cons.prems(2) Cons.prems(3)]
  show ?case
  proof (cases "key = k")
    case True
    with S IH item show ?thesis by auto
  next
    case False
    with S IH item show ?thesis by auto
  qed
qed

lemma map_of_fill_defaults:
  "distinct (map fst V) \<Longrightarrow>
   map_of (fill_defaults V N) k =
     (case map_of V k of None \<Rightarrow> map_of N k | Some (t, d) \<Rightarrow> Some d)"
proof (induction V arbitrary: N)
  case Nil
  then show ?case by simp
next
  case (Cons p V)
  obtain key t d where p: "p = (key, t, d)" by (cases p)
  from Cons.prems p have nk: "key \<notin> fst ` set V" and dist: "distinct (map fst V)" by auto
  from nk have none: "map_of V key = None" by (simp add: map_of_eq_None_iff)
  show ?case using Cons.IH [OF dist, of "dict_set key d N"] p none
    by (auto simp: map_of_dict_set split: option.splits)
qed

lemma distinct_del_key: "distinct (map fst V) \<Longrightarrow> distinct (map fst (del_key k V))"
  by (simp add: del_key_def distinct_map_filter)

lemma validate_item_distinct:
  "validate_item (V, M, N) item = (V', M', N') \<Longrightarrow> distinct (map fst V) \<Longrightarrow> distinct (map fst V')"
  by (cases item) (auto split: option.splits if_splits simp: distinct_del_key)

lemma fold_validate_distinct:
  "foldl validate_item (V, M, N) items = (V', M', N') \<Longrightarrow> distinct (map fst V)
   \<Longrightarrow> distinct (map fst V')"
proof (induction items arbitrary: V M N)
  case Nil
  then show ?case by simp
next
  case (Cons item items)
  obtain V1 M1 N1 where step: "validate_item (V, M, N) item = (V1, M1, N1)"
    by (cases "validate_item (V, M, N) item") auto
  with Cons.prems have "foldl validate_item (V1, M1, N1) items = (V', M', N')" by simp
  from Cons.IH [OF this validate_item_distinct [OF step Cons.prems(2)]] show ?case .
qed

lemma distinct_network_validations: "distinct (map fst network_validations)"
  by (simp add: network_validations_def)

lemma sub_table_network_validations: "sub_table network_validations"
  by (simp add: sub_table_def)

text \<open>A validated network carries every boolean key with a boolean value.\<close>

lemma validate_connect_network_bool_key:
  assumes ok: "validate_connect_network net = Inr net'"
    and key: "map_of network_validations k = Some (TyBool, PBool d)"
  shows "map_of net' k = Some (PBool (truthy (dict_get_default net k (PBool d))))"
proof -
  define no_name where "no_name = (\<not> truthy (dict_get net ''name''))"
  define V1 where
    "V1 = (if no_name then del_key ''name'' network_validations else network_validations)"
  define M1 where "M1 =
    (let messages0 =
       (if truthy (dict_get net ''switch_distributed'') \<and> truthy (dict_get net ''nsx_t_switch'')
        then [BothSwitches] else [])
     in if no_name then messages0 @ [MissingName] else messages0)"
  obtain V' M' N' where fold: "foldl validate_item (V1, M1, net) net = (V', M', N')"
    by (cases "foldl validate_item (V1, M1, net) net") auto
  from ok fold have M': "M' = []" and net': "net' = fill_defaults V' N'"
    by (auto simp: validate_connect_network_def Let_def V1_def M1_def no_name_def
        split: if_splits)
  from fold_validate_messages [OF fold] M' have M1: "M1 = []" by simp
  then have nn: "\<not> no_name" by (auto simp: M1_def Let_def split: if_splits)
  then have V1: "V1 = network_validations" by (simp add: V1_def)
  from fold M' M1 V1 have fold': "foldl validate_item (network_validations, [], net) net = (V', [], N')"
    by simp
  note B = fold_validate_bool_key [OF fold' sub_table_network_validations key]
  have dist: "distinct (map fst V')"
    using fold_validate_distinct [OF fold' distinct_network_validations] .
  show ?thesis
  proof (cases "k \<in> fst ` set net")
    case True
    with B have "map_of V' k = None" and "\<exists>b. map_of net k = Some (PBool b)"
      and "map_of N' k = map_of net k" by auto
    then show ?thesis
      by (auto simp: net' map_of_fill_defaults [OF dist] dict_get_default_def)
  next
    case False
    with B have "map_of V' k = Some (TyBool, PBool d)" using key by auto
    moreover from False have "map_of net k = None" by (simp add: map_of_eq_None_iff)
    ultimately show ?thesis
      by (auto simp: net' map_of_fill_defaults [OF dist] dict_get_default_def)
  qed
qed

section \<open>Identity resolver: properties\<close>

text \<open>
  C10. When no name is stored on the instance (the runtime property \<open>name\<close> is absent or
  \<open>None\<close>), the server properties carry a configured name other than \<open>None\<close>, and
  \<open>add_scale_suffix\<close> is falsy, \<open>get_vm_name\<close> returns the configured name as it is:
  no suffix, no rewriting of underscores, no validation, whatever the OS family.
\<close>

theorem get_vm_name_configured_unchanged:
  assumes "rp_get (rp_name (runtime c)) = PNone"
    and "dict_get server ''name'' \<noteq> PNone"
    and "\<not> truthy (dict_get_default server ''add_scale_suffix'' (PBool True))"
  shows "get_vm_name c server os_family = Inr (dict_get server ''name'')"
  using assms by (simp add: get_vm_name_def)

text \<open>
  The configured name \<open>my_vm!\<close> has an underscore and a character the validation
  rejects; it is returned unchanged.
\<close>

theorem get_vm_name_configured_unchanged_witness:
  "rp_get (rp_name (runtime (ctx_of ''web_0042'' rp_empty))) = PNone
   \<and> dict_get [(''name'', PStr ''my_vm!''), (''add_scale_suffix'', PBool False)] ''name'' \<noteq> PNone
   \<and> \<not> truthy (dict_get_default [(''name'', PStr ''my_vm!''), (''add_scale_suffix'', PBool False)]
          ''add_scale_suffix'' (PBool True))
   \<and> get_vm_name (ctx_of ''web_0042'' rp_empty)
        [(''name'', PStr ''my_vm!''), (''add_scale_suffix'', PBool False)] (PStr ''linux'')
      = Inr (PStr ''my_vm!'')
   \<and> validate_vm_name ''my_vm!'' = Inl (name_error ''my_vm!'')"
proof -
  let ?c = "ctx_of ''web_0042'' rp_empty"
  let ?server = "[(''name'', PStr ''my_vm!''), (''add_scale_suffix'', PBool False)]"
  have h1: "rp_get (rp_name (runtime ?c)) = PNone"
    by (simp add: ctx_of_def rp_empty_def rp_get_def)
  have h2: "dict_get ?server ''name'' \<noteq> PNone"
    by (simp add: dict_get_def)
  have h3: "\<not> truthy (dict_get_default ?server ''add_scale_suffix'' (PBool True))"
    by (simp add: dict_get_default_def)
  have v: "validate_vm_name ''my_vm!'' = Inl (name_error ''my_vm!'')"
    by (simp add: validate_vm_name_def search_forbidden_def allowed_chars_def)
  from get_vm_name_configured_unchanged [OF h1 h2 h3, of "PStr ''linux''"] h1 h2 h3 v
  show ?thesis by (simp add: dict_get_def)
qed

text \<open>
  C4. The specification says: a derived name that consists of digits (and hyphens) only is rejected
  with a non-recoverable naming error. The code only searches for a character outside
  \<open>[A-Za-z0-9-]\<close>: \<open>validate_vm_name\<close> accepts \<open>1234\<close>, and \<open>get_vm_name\<close> derives
  and returns \<open>12-34\<close> for the instance id \<open>12_34\<close>.
\<close>

theorem all_numeric_name_accepted:
  "validate_vm_name ''1234'' = Inr ()
   \<and> get_vm_name (ctx_of ''12_34'' rp_empty) [] (PStr ''linux'') = Inr (PStr ''12-34'')"
  by (simp add: validate_vm_name_def search_forbidden_def allowed_chars_def get_vm_name_def
      ctx_of_def rp_empty_def rp_get_def dict_get_def dict_get_default_def rsplit1_def lower_def
      lower_char_def replace_underscores_def)

section \<open>Network topology resolver: properties\<close>

lemma merge_rel_nic_length:
  "merge_rel_nic cn props = Inr merged \<Longrightarrow> length merged = length props"
  by (induction props arbitrary: merged) (auto split: option.splits sum.splits)

text \<open>Every relationship network adds an entry to the list, merged or not.\<close>

lemma connect_rel_nics_length:
  "connect_rel_nics rels props connected = Inr (nets, connected')
   \<Longrightarrow> length nets = length props + length rels"
proof (induction rels arbitrary: props connected)
  case Nil
  then show ?case by simp
next
  case (Cons rel rels)
  then show ?case
    by (auto split: option.splits sum.splits if_splits simp: Let_def dest!: merge_rel_nic_length)
qed

text \<open>
  C1. The specification says: a relationship network that is merged into a declared network flagged
  \<open>from_relationship\<close> is not appended as an entry of its own. In the code the
  \<open>append\<close> follows the inner loop unconditionally: with the declared network
  \<open>{name: net1, from_relationship: True}\<close> and one related NIC on \<open>net1\<close>, the
  result holds the merged entry and the relationship entry.
\<close>

theorem merged_relationship_network_is_appended_too:
  "get_connected_networks ((ctx_of ''web_0042'' rp_empty)\<lparr>nics_from_rels := [rel_net1]\<rparr>)
     [declared_net1]
   = Inr ([[(''name'', PStr ''net1''), (''from_relationship'', PBool True),
            (''switch_distributed'', PBool True)],
           [(''name'', PStr ''net1''), (''switch_distributed'', PBool True)]],
          (ctx_of ''web_0042'' rp_empty)
            \<lparr>nics_from_rels := [rel_net1],
             runtime := rp_empty\<lparr>rp_connected_nics := Some [''nic_1'']\<rparr>\<rparr>)"
  by (simp add: get_connected_networks_def ctx_of_def rp_empty_def rel_net1_def declared_net1_def
      dict_get_def dict_get_default_def Let_def)

lemma validate_item_independent:
  assumes "map_of V key = map_of T key" and "dict_get N key = val"
  shows "\<exists>V' N'. validate_item (V, M, N) (key, val) = (V', M @ item_violations T (key, val), N')
     \<and> (\<forall>k. k \<noteq> key \<longrightarrow> map_of V' k = map_of V k \<and> dict_get N' k = dict_get N k)"
  using assms
  by (auto simp: item_violations_def map_of_del_key dict_get_dict_set split: option.splits)

lemma fold_validate_item_messages:
  assumes "distinct (map fst items)"
    and "\<forall>item \<in> set items. map_of V (fst item) = map_of T (fst item) \<and> dict_get N (fst item) = snd item"
  shows "fst (snd (foldl validate_item (V, M, N) items)) = M @ concat (map (item_violations T) items)"
  using assms
proof (induction items arbitrary: V M N)
  case Nil
  then show ?case by simp
next
  case (Cons item items)
  obtain key val where item: "item = (key, val)" by (cases item)
  from Cons.prems(2) item have a: "map_of V key = map_of T key" and b: "dict_get N key = val"
    by auto
  from validate_item_independent [OF a b, of M] obtain V' N' where
    step: "validate_item (V, M, N) (key, val) = (V', M @ item_violations T (key, val), N')"
    and same: "\<forall>k. k \<noteq> key \<longrightarrow> map_of V' k = map_of V k \<and> dict_get N' k = dict_get N k"
    by blast
  from Cons.prems(1) item have dist: "distinct (map fst items)" and nk: "key \<notin> fst ` set items"
    by auto
  have inv: "\<forall>i \<in> set items. map_of V' (fst i) = map_of T (fst i) \<and> dict_get N' (fst i) = snd i"
  proof
    fix i assume i: "i \<in> set items"
    with nk have "fst i \<noteq> key" by auto
    with same Cons.prems(2) i show "map_of V' (fst i) = map_of T (fst i) \<and> dict_get N' (fst i) = snd i"
      by auto
  qed
  from Cons.IH [OF dist inv, of "M @ item_violations T (key, val)"] step item
  show ?case by simp
qed

lemma dict_get_distinct:
  "distinct (map fst net) \<Longrightarrow> item \<in> set net \<Longrightarrow> dict_get net (fst item) = snd item"
  by (cases item) (simp add: dict_get_def)

text \<open>
  The loop of \<open>validate_connect_network\<close> collects exactly the violations of all items,
  and the error is raised after the loop with all of them.
\<close>

lemma validate_connect_network_all_violations:
  assumes "distinct (map fst net)"
  shows "(all_violations net = [] \<longrightarrow> (\<exists>net'. validate_connect_network net = Inr net'))
    \<and> (all_violations net \<noteq> [] \<longrightarrow>
         validate_connect_network net
           = Inl (NonRecoverableError (NetworkFailedValidation (all_violations net))))"
proof -
  define V1 where "V1 = (if truthy (dict_get net ''name'') then network_validations
                         else del_key ''name'' network_validations)"
  define M1 where "M1 =
     (if truthy (dict_get net ''switch_distributed'') \<and> truthy (dict_get net ''nsx_t_switch'')
      then [BothSwitches] else [])
     @ (if truthy (dict_get net ''name'') then [] else [MissingName])"
  obtain V' M' N' where fold: "foldl validate_item (V1, M1, net) net = (V', M', N')"
    by (cases "foldl validate_item (V1, M1, net) net") auto
  have "\<forall>item \<in> set net. map_of V1 (fst item) = map_of V1 (fst item)
          \<and> dict_get net (fst item) = snd item"
    using dict_get_distinct [OF assms] by simp
  from fold_validate_item_messages [OF assms this, of M1] fold
  have M': "M' = all_violations net"
    by (simp add: all_violations_def V1_def M1_def)
  have "validate_connect_network net =
      (case foldl validate_item (V1, M1, net) net of
         (validations, messages, net') \<Rightarrow>
           if messages \<noteq> [] then Inl (NonRecoverableError (NetworkFailedValidation messages))
           else Inr (fill_defaults validations net'))"
    by (cases "truthy (dict_get net ''name'')")
      (simp_all add: validate_connect_network_def Let_def V1_def M1_def)
  with fold have v: "validate_connect_network net =
      (if M' \<noteq> [] then Inl (NonRecoverableError (NetworkFailedValidation M'))
       else Inr (fill_defaults V' N'))"
    by simp
  show ?thesis using v M' by auto
qed

lemma item_violation_in_all:
  "item \<in> set net \<Longrightarrow>
   v \<in> set (item_violations
              (if truthy (dict_get net ''name'') then network_validations
               else del_key ''name'' network_validations) item)
   \<Longrightarrow> v \<in> set (all_violations net)"
  by (auto simp: all_violations_def)

text \<open>
  C6. For every network entry (a dictionary: its keys are distinct),
  \<open>validate_connect_network\<close> raises one non-recoverable error that lists all
  violations of the entry, and returns the entry when there is none: it never raises
  with a part of the violations only. The list holds the switch conflict, the missing
  name, every unknown key and every value of the wrong type.
\<close>

theorem validate_connect_network_batched:
  assumes "distinct (map fst net)"
  shows "(all_violations net = [] \<longrightarrow> (\<exists>net'. validate_connect_network net = Inr net'))
    \<and> (all_violations net \<noteq> [] \<longrightarrow>
         validate_connect_network net
           = Inl (NonRecoverableError (NetworkFailedValidation (all_violations net))))
    \<and> (truthy (dict_get net ''switch_distributed'') \<and> truthy (dict_get net ''nsx_t_switch'')
         \<longrightarrow> BothSwitches \<in> set (all_violations net))
    \<and> (\<not> truthy (dict_get net ''name'') \<longrightarrow> MissingName \<in> set (all_violations net))
    \<and> (\<forall>key val. (key, val) \<in> set net \<and> map_of network_validations key = None
         \<longrightarrow> UnsupportedKey key val \<in> set (all_violations net))
    \<and> (\<forall>key val t d. (key, val) \<in> set net \<and> map_of network_validations key = Some (t, d)
           \<and> (truthy val \<or> t = TyBool) \<and> \<not> isinstance val t
         \<longrightarrow> UnsupportedType key t val \<in> set (all_violations net))"
proof (intro conjI allI impI)
  show "\<exists>net'. validate_connect_network net = Inr net'" if "all_violations net = []"
    using validate_connect_network_all_violations [OF assms] that by blast
  show "validate_connect_network net
        = Inl (NonRecoverableError (NetworkFailedValidation (all_violations net)))"
    if "all_violations net \<noteq> []"
    using validate_connect_network_all_violations [OF assms] that by blast
  show "BothSwitches \<in> set (all_violations net)"
    if "truthy (dict_get net ''switch_distributed'') \<and> truthy (dict_get net ''nsx_t_switch'')"
    using that by (simp add: all_violations_def)
  show "MissingName \<in> set (all_violations net)" if "\<not> truthy (dict_get net ''name'')"
    using that by (simp add: all_violations_def)
next
  fix key val
  assume a: "(key, val) \<in> set net \<and> map_of network_validations key = None"
  then have "UnsupportedKey key val \<in> set (item_violations
              (if truthy (dict_get net ''name'') then network_validations
               else del_key ''name'' network_validations) (key, val))"
    by (simp add: item_violations_def map_of_del_key)
  with a show "UnsupportedKey key val \<in> set (all_violations net)"
    using item_violation_in_all by blast
next
  fix key val t d
  assume a: "(key, val) \<in> set net \<and> map_of network_validations key = Some (t, d)
           \<and> (truthy val \<or> t = TyBool) \<and> \<not> isinstance val t"
  have "truthy (dict_get net ''name'') \<or> key \<noteq> ''name''"
  proof (rule ccontr)
    assume "\<not> (truthy (dict_get net ''name'') \<or> key \<noteq> ''name'')"
    then have k: "key = ''name''" and f: "\<not> truthy (dict_get net ''name'')" by auto
    from dict_get_distinct [OF assms, of "(key, val)"] a k have "dict_get net ''name'' = val"
      by simp
    moreover from a k have "t = TyText" by (simp add: network_validations_def)
    ultimately show False using a f by simp
  qed
  with a have "UnsupportedType key t val \<in> set (item_violations
              (if truthy (dict_get net ''name'') then network_validations
               else del_key ''name'' network_validations) (key, val))"
    by (auto simp: item_violations_def map_of_del_key)
  with a show "UnsupportedType key t val \<in> set (all_violations net)"
    using item_violation_in_all by blast
qed

lemma all_violations_malformed:
  "all_violations net_malformed =
     [BothSwitches, MissingName, UnsupportedKey ''name'' (PStr ''''),
      UnsupportedKey ''foo'' (PInt 1), UnsupportedType ''external'' TyBool (PStr ''yes'')]"
  by (simp add: all_violations_def net_malformed_def item_violations_def dict_get_def
      network_validations_def del_key_def)

text \<open>An entry with five violations: all five are in the one error.\<close>

theorem validate_connect_network_batched_witness:
  "distinct (map fst net_malformed)
   \<and> validate_connect_network net_malformed
       = Inl (NonRecoverableError (NetworkFailedValidation
           [BothSwitches, MissingName, UnsupportedKey ''name'' (PStr ''''),
            UnsupportedKey ''foo'' (PInt 1), UnsupportedType ''external'' TyBool (PStr ''yes'')]))"
proof -
  have d: "distinct (map fst net_malformed)" by (simp add: net_malformed_def)
  from validate_connect_network_batched [OF d] d show ?thesis
    by (simp add: all_violations_malformed)
qed

lemma reorder_networks_result:
  "reorder_networks nets acc = Inr res \<Longrightarrow>
   \<exists>validated. map validate_connect_network nets = map Inr validated
     \<and> res = rev (filter (flagged ''external'') validated) @ acc
             @ filter (\<lambda>n. \<not> flagged ''external'' n) validated"
proof (induction nets arbitrary: acc)
  case Nil
  then show ?case by simp
next
  case (Cons net nets)
  from Cons.prems obtain net' ext where v: "validate_connect_network net = Inr net'"
    and e: "map_of net' ''external'' = Some ext"
    and r: "reorder_networks nets (if truthy ext then net' # acc else acc @ [net']) = Inr res"
    by (auto split: sum.splits option.splits if_splits)
  from e have fl: "flagged ''external'' net' = truthy ext"
    by (simp add: flagged_def dict_get_default_def)
  from Cons.IH [OF r] obtain validated where
    m: "map validate_connect_network nets = map Inr validated"
    and res: "res = rev (filter (flagged ''external'') validated)
                @ (if truthy ext then net' # acc else acc @ [net'])
                @ filter (\<lambda>n. \<not> flagged ''external'' n) validated"
    by blast
  show ?case
  proof (intro exI [of _ "net' # validated"] conjI)
    show "map validate_connect_network (net # nets) = map Inr (net' # validated)"
      using v m by simp
    show "res = rev (filter (flagged ''external'') (net' # validated)) @ acc
             @ filter (\<lambda>n. \<not> flagged ''external'' n) (net' # validated)"
      using res fl by simp
  qed
qed

lemma bool_key_external: "map_of network_validations ''external'' = Some (TyBool, PBool False)"
  by (simp add: network_validations_def)

lemma bool_key_management: "map_of network_validations ''management'' = Some (TyBool, PBool False)"
  by (simp add: network_validations_def)

lemma validated_flag:
  assumes "validate_connect_network net = Inr net'"
    and "map_of network_validations k = Some (TyBool, PBool False)"
  shows "map_of net' k = Some (PBool (flagged k net))" and "flagged k net' = flagged k net"
  using validate_connect_network_bool_key [OF assms]
  by (simp_all add: flagged_def dict_get_default_def)

lemma validated_flags:
  assumes "map validate_connect_network nets = map Inr validated"
    and key: "map_of network_validations k = Some (TyBool, PBool False)"
  shows "length (filter (flagged k) validated) = length (filter (flagged k) nets)"
    and "length (filter (\<lambda>n. map_of n k = Some (PBool True)) validated)
         = length (filter (flagged k) nets)"
  using assms(1)
proof (induction nets arbitrary: validated)
  case Nil
  { case 1 then show ?case by simp }
  { case 2 then show ?case by simp }
next
  case (Cons net nets)
  { case 1
    then obtain net' rest where v: "validated = net' # rest"
      and a: "validate_connect_network net = Inr net'"
      and b: "map validate_connect_network nets = map Inr rest"
      by (cases validated) auto
    with Cons.IH(1) [OF b] validated_flag [OF a key] show ?case by simp }
  { case 2
    then obtain net' rest where v: "validated = net' # rest"
      and a: "validate_connect_network net = Inr net'"
      and b: "map validate_connect_network nets = map Inr rest"
      by (cases validated) auto
    with Cons.IH(2) [OF b] validated_flag [OF a key] show ?case by simp }
qed

lemma length_le_one_rev: "length xs \<le> 1 \<Longrightarrow> rev xs = xs"
  by (cases xs) auto

text \<open>
  C8. Whenever \<open>handle_networks\<close> returns, its result is the validated (defaulted)
  networks of the merged list with the external network, of which there is at most one,
  first and all others behind it in their original order.
\<close>

theorem handle_networks_external_first:
  assumes "handle_networks c networking = Inr (nets, c')"
  shows "\<exists>merged validated.
      get_connected_networks c (connect_networks_or_empty networking) = Inr (merged, c')
      \<and> map validate_connect_network merged = map Inr validated
      \<and> length (filter (flagged ''external'') validated) \<le> 1
      \<and> nets = filter (flagged ''external'') validated
               @ filter (\<lambda>n. \<not> flagged ''external'' n) validated"
proof -
  from assms obtain merged where
    g: "get_connected_networks c (connect_networks_or_empty networking) = Inr (merged, c')"
    by (auto simp: handle_networks_def split: sum.splits prod.splits if_splits)
  show ?thesis
  proof (cases "merged = []")
    case True
    with assms g have "nets = []" by (simp add: handle_networks_def)
    with g True show ?thesis by (intro exI [of _ "[]"]) simp
  next
    case False
    with assms g have cnt: "length (filter (flagged ''external'') merged) \<le> 1"
      and r: "reorder_networks merged [] = Inr nets"
      by (auto simp: handle_networks_def split: sum.splits if_splits)
    from reorder_networks_result [OF r] obtain validated where
      m: "map validate_connect_network merged = map Inr validated"
      and n: "nets = rev (filter (flagged ''external'') validated) @ []
               @ filter (\<lambda>n. \<not> flagged ''external'' n) validated"
      by blast
    from validated_flags(1) [OF m bool_key_external] cnt
    have le: "length (filter (flagged ''external'') validated) \<le> 1" by simp
    from n length_le_one_rev [OF le]
    have "nets = filter (flagged ''external'') validated
               @ filter (\<lambda>n. \<not> flagged ''external'' n) validated" by simp
    with g m le show ?thesis by blast
  qed
qed


lemma validate_net_a: "validate_connect_network net_a = Inr resolved_a"
  by (simp add: validate_connect_network_def net_a_def resolved_a_def network_validations_def
      dict_get_def del_key_def Let_def)

lemma validate_net_b: "validate_connect_network net_b = Inr resolved_b"
  by (simp add: validate_connect_network_def net_b_def resolved_b_def network_validations_def
      dict_get_def del_key_def Let_def)

lemma get_connected_networks_plain:
  "get_connected_networks ctx_plain nets = Inr (nets, ctx_plain_resolved)"
  by (simp add: get_connected_networks_def ctx_plain_def ctx_plain_resolved_def ctx_of_def
      rp_empty_def)

lemma handle_networks_a_b:
  "handle_networks ctx_plain (Networking (Some [net_a, net_b]) [])
   = Inr ([resolved_b, resolved_a], ctx_plain_resolved)"
proof -
  have fa: "\<not> flagged ''external'' net_a" "\<not> flagged ''management'' net_a"
    and fb: "flagged ''external'' net_b" "\<not> flagged ''management'' net_b"
    by (simp_all add: flagged_def dict_get_default_def net_a_def net_b_def)
  have ea: "map_of resolved_a ''external'' = Some (PBool False)"
    and eb: "map_of resolved_b ''external'' = Some (PBool True)"
    by (simp_all add: resolved_a_def resolved_b_def)
  show ?thesis
    by (simp add: handle_networks_def connect_networks_or_empty_def get_connected_networks_plain
        fa fb validate_net_a validate_net_b ea eb)
qed

text \<open>The input \<open>[{name: a}, {name: b, external: True}]\<close> resolves to \<open>[b, a]\<close>.\<close>

theorem handle_networks_external_first_witness:
  "handle_networks ctx_plain (Networking (Some [net_a, net_b]) [])
     = Inr ([resolved_b, resolved_a], ctx_plain_resolved)
   \<and> (\<exists>merged validated.
        get_connected_networks ctx_plain
          (connect_networks_or_empty (Networking (Some [net_a, net_b]) []))
          = Inr (merged, ctx_plain_resolved)
        \<and> map validate_connect_network merged = map Inr validated
        \<and> length (filter (flagged ''external'') validated) \<le> 1
        \<and> [resolved_b, resolved_a] = filter (flagged ''external'') validated
               @ filter (\<lambda>n. \<not> flagged ''external'' n) validated)"
  using handle_networks_external_first [OF handle_networks_a_b] handle_networks_a_b
  by simp

text \<open>
  C7. A list returned by \<open>handle_networks\<close> never holds more than one entry with
  \<open>external = True\<close> nor more than one with \<open>management = True\<close>. Whenever the
  combined list (the declared networks with the relationship networks merged in and
  appended, as \<open>get_connected_networks\<close> returns it) holds more than one external
  network, \<open>handle_networks\<close> raises the non-recoverable error that names
  \<open>external\<close>; when it holds at most one external but more than one management
  network, the error that names \<open>management\<close>.
\<close>

theorem handle_networks_exclusive:
  "(\<forall>nets c'. handle_networks c networking = Inr (nets, c') \<longrightarrow>
       length (filter (\<lambda>n. map_of n ''external'' = Some (PBool True)) nets) \<le> 1
     \<and> length (filter (\<lambda>n. map_of n ''management'' = Some (PBool True)) nets) \<le> 1)
   \<and> (\<forall>merged c'.
         get_connected_networks c (connect_networks_or_empty networking) = Inr (merged, c') \<longrightarrow>
           (1 < length (filter (flagged ''external'') merged) \<longrightarrow>
              handle_networks c networking = Inl (too_many ''external''))
         \<and> (length (filter (flagged ''external'') merged) \<le> 1
              \<and> 1 < length (filter (flagged ''management'') merged) \<longrightarrow>
              handle_networks c networking = Inl (too_many ''management'')))"
proof (intro conjI allI impI)
  fix nets c'
  assume h: "handle_networks c networking = Inr (nets, c')"
  then obtain merged where
    g: "get_connected_networks c (connect_networks_or_empty networking) = Inr (merged, c')"
    by (auto simp: handle_networks_def split: sum.splits prod.splits if_splits)
  have "length (filter (\<lambda>n. map_of n ''external'' = Some (PBool True)) nets) \<le> 1
      \<and> length (filter (\<lambda>n. map_of n ''management'' = Some (PBool True)) nets) \<le> 1"
  proof (cases "merged = []")
    case True
    with h g have "nets = []" by (simp add: handle_networks_def)
    then show ?thesis by simp
  next
    case False
    with h g have ce: "length (filter (flagged ''external'') merged) \<le> 1"
      and cm: "length (filter (flagged ''management'') merged) \<le> 1"
      and r: "reorder_networks merged [] = Inr nets"
      by (auto simp: handle_networks_def split: sum.splits if_splits)
    from reorder_networks_result [OF r] obtain validated where
      m: "map validate_connect_network merged = map Inr validated"
      and n: "nets = rev (filter (flagged ''external'') validated) @ []
               @ filter (\<lambda>n. \<not> flagged ''external'' n) validated"
      by blast
    have len: "length (filter P nets) = length (filter P validated)" for P
    proof -
      have "length (filter P nets)
          = length (filter P (filter (flagged ''external'') validated))
            + length (filter P (filter (\<lambda>n. \<not> flagged ''external'' n) validated))"
        by (simp add: n flip: rev_filter)
      also have "\<dots> = length (filter P validated)"
        by (induction validated) auto
      finally show ?thesis .
    qed
    from validated_flags(2) [OF m bool_key_external] validated_flags(2) [OF m bool_key_management]
      ce cm show ?thesis by (simp add: len)
  qed
  then show "length (filter (\<lambda>n. map_of n ''external'' = Some (PBool True)) nets) \<le> 1"
    and "length (filter (\<lambda>n. map_of n ''management'' = Some (PBool True)) nets) \<le> 1"
    by simp_all
next
  fix merged c'
  assume g: "get_connected_networks c (connect_networks_or_empty networking) = Inr (merged, c')"
    and many: "1 < length (filter (flagged ''external'') merged)"
  then have "merged \<noteq> []" by auto
  with g many show "handle_networks c networking = Inl (too_many ''external'')"
    by (simp add: handle_networks_def)
next
  fix merged c'
  assume g: "get_connected_networks c (connect_networks_or_empty networking) = Inr (merged, c')"
    and many: "length (filter (flagged ''external'') merged) \<le> 1
               \<and> 1 < length (filter (flagged ''management'') merged)"
  then have "merged \<noteq> []" by auto
  with g many show "handle_networks c networking = Inl (too_many ''management'')"
    by (simp add: handle_networks_def)
qed

text \<open>
  A list with one external network is resolved; two external networks, and two
  management networks, are refused.
\<close>

theorem handle_networks_exclusive_witness:
  "handle_networks ctx_plain (Networking (Some [net_a, net_b]) [])
     = Inr ([resolved_b, resolved_a], ctx_plain_resolved)
   \<and> length (filter (\<lambda>n. map_of n ''external'' = Some (PBool True)) [resolved_b, resolved_a]) \<le> 1
   \<and> length (filter (\<lambda>n. map_of n ''management'' = Some (PBool True)) [resolved_b, resolved_a]) \<le> 1
   \<and> 1 < length (filter (flagged ''external'') [net_b, net_c])
   \<and> handle_networks ctx_plain (Networking (Some [net_b, net_c]) []) = Inl (too_many ''external'')
   \<and> length (filter (flagged ''external'') [net_c, net_d]) \<le> 1
   \<and> 1 < length (filter (flagged ''management'') [net_c, net_d])
   \<and> handle_networks ctx_plain (Networking (Some [net_c, net_d]) []) = Inl (too_many ''management'')"
proof -
  have fl: "flagged ''external'' net_b" "flagged ''external'' net_c" "\<not> flagged ''external'' net_d"
    "flagged ''management'' net_c" "flagged ''management'' net_d"
    by (simp_all add: flagged_def dict_get_default_def net_b_def net_c_def net_d_def)
  have g: "get_connected_networks ctx_plain (connect_networks_or_empty (Networking (Some nets) []))
           = Inr (nets, ctx_plain_resolved)" for nets
    by (simp add: connect_networks_or_empty_def get_connected_networks_plain)
  from handle_networks_exclusive [of ctx_plain "Networking (Some [net_a, net_b]) []"]
    handle_networks_exclusive [of ctx_plain "Networking (Some [net_b, net_c]) []"]
    handle_networks_exclusive [of ctx_plain "Networking (Some [net_c, net_d]) []"]
    handle_networks_a_b g fl
  show ?thesis by simp
qed

section \<open>Lifecycle orchestrator: properties\<close>

text \<open>Logging changes neither the runtime properties nor the instance id.\<close>

lemma get_vm_name_cong:
  assumes "runtime c = runtime c'" and "instance_id c = instance_id c'"
  shows "get_vm_name c server os_family = get_vm_name c' server os_family"
  unfolding get_vm_name_def assms ..

lemma get_server_by_context_cong:
  assumes "runtime c = runtime c'" and "instance_id c = instance_id c'"
  shows "get_server_by_context cl c server os_family
         = get_server_by_context cl c' server os_family"
  unfolding get_server_by_context_def get_vm_name_cong [OF assms] assms(1) ..

lemma runtime_log [simp]: "runtime (log lvl fmt args c) = runtime c"
  and instance_id_log [simp]: "instance_id (log lvl fmt args c) = instance_id c"
  and logger_log: "logger (log lvl fmt args c) = logger c @ [(lvl, fmt, args)]"
  by (simp_all add: log_def)

lemma get_vm_name_log [simp]:
  "get_vm_name (log lvl fmt args c) server os_family = get_vm_name c server os_family"
  by (rule get_vm_name_cong) simp_all

lemma get_server_by_context_log [simp]:
  "get_server_by_context cl (log lvl fmt args c) server os_family
   = get_server_by_context cl c server os_family"
  by (rule get_server_by_context_cong) simp_all

lemma get_server_by_context_id:
  "rp_vsphere_server_id (runtime c) = Some server_id \<Longrightarrow>
   get_server_by_context cl c server os_family = Inr (get_server_by_id cl server_id)"
  by (simp add: get_server_by_context_def)

text \<open>
  C9, as the code has it. When a truthy server id is stored and the platform finds no
  object for it: \<open>stop\<close> raises the non-recoverable error and \<open>delete\<close> logs the
  absence and returns with the runtime properties unchanged, provided the operation is
  not skipped by its guard. The guard comes first: on an instance flagged as an external
  resource, without the force flag, \<open>stop\<close> and \<open>delete\<close> both log and return
  without looking the server up.
\<close>

theorem stop_raises_delete_succeeds_when_gone:
  assumes id: "rp_vsphere_server_id (runtime c) = Some server_id"
    and tr: "truthy server_id"
    and gone: "get_server_by_id cl server_id = None"
  shows "(\<not> (truthy (rp_get (rp_resource_external (runtime c))) \<and> \<not> force_stop) \<longrightarrow>
           stop cl c server os_family force_stop
             = Inl (NonRecoverableError (Text
                 (''Cannot stop server - server doesn't exist for node: '' @ instance_id c))))
       \<and> (\<not> (truthy (rp_get (rp_resource_external (runtime c))) \<and> \<not> force_delete) \<longrightarrow>
           (\<exists>c'. delete cl c server os_family force_delete = Inr c'
              \<and> runtime c' = runtime c
              \<and> last (logger c')
                  = (Info, ''Cannot delete server - server doesn't exist for node: {0}'',
                     [PStr (instance_id c)])))
       \<and> (truthy (rp_get (rp_resource_external (runtime c))) \<and> \<not> force_stop \<longrightarrow>
           stop cl c server os_family force_stop
             = Inr (log Warn
                 ''Not stopping because use_external_resource is True and force_stop is False.''
                 [] c))
       \<and> (truthy (rp_get (rp_resource_external (runtime c))) \<and> \<not> force_delete \<longrightarrow>
           delete cl c server os_family force_delete
             = Inr (log Info ''Used existing resource.'' [] c))"
  using assms
  by (auto simp: stop_def delete_def Let_def get_server_by_context_id rp_get_def logger_log)

text \<open>
  The statement of the specification fails under the guard: the id is stored, the platform has no
  such object, and \<open>stop\<close> returns without an error.
\<close>

theorem stop_external_resource_no_error:
  "rp_vsphere_server_id (runtime ctx_external) = Some (PStr ''vm-42'')
   \<and> get_server_by_id client_gone (PStr ''vm-42'') = None
   \<and> stop client_gone ctx_external [] (PStr ''linux'') False
       = Inr (log Warn
           ''Not stopping because use_external_resource is True and force_stop is False.''
           [] ctx_external)"
  by (simp add: stop_def ctx_external_def ctx_of_def rp_created_def rp_empty_def client_gone_def
      rp_get_def)

text \<open>Both cases on the example instance, with and without the external flag.\<close>

theorem stop_raises_delete_succeeds_when_gone_witness:
  "rp_vsphere_server_id (runtime ctx_created) = Some (PStr ''vm-42'')
   \<and> truthy (PStr ''vm-42'')
   \<and> get_server_by_id client_gone (PStr ''vm-42'') = None
   \<and> stop client_gone ctx_created [] (PStr ''linux'') False
       = Inl (NonRecoverableError (Text
           ''Cannot stop server - server doesn't exist for node: web_0042''))
   \<and> (\<exists>c'. delete client_gone ctx_created [] (PStr ''linux'') False = Inr c'
          \<and> runtime c' = runtime ctx_created
          \<and> last (logger c')
              = (Info, ''Cannot delete server - server doesn't exist for node: {0}'',
                 [PStr ''web_0042'']))
   \<and> stop client_gone ctx_external [] (PStr ''linux'') False
       = Inr (log Warn
           ''Not stopping because use_external_resource is True and force_stop is False.''
           [] ctx_external)
   \<and> delete client_gone ctx_external [] (PStr ''linux'') False
       = Inr (log Info ''Used existing resource.'' [] ctx_external)"
proof -
  have id: "rp_vsphere_server_id (runtime ctx_created) = Some (PStr ''vm-42'')"
    and idx: "rp_vsphere_server_id (runtime ctx_external) = Some (PStr ''vm-42'')"
    by (simp_all add: ctx_created_def ctx_external_def ctx_of_def rp_created_def rp_empty_def)
  have tr: "truthy (PStr ''vm-42'')" by simp
  have gone: "get_server_by_id client_gone (PStr ''vm-42'') = None"
    by (simp add: client_gone_def)
  have ext: "\<not> truthy (rp_get (rp_resource_external (runtime ctx_created)))"
    "truthy (rp_get (rp_resource_external (runtime ctx_external)))"
    "instance_id ctx_created = ''web_0042''"
    by (simp_all add: ctx_created_def ctx_external_def ctx_of_def rp_created_def rp_empty_def
        rp_get_def)
  from stop_raises_delete_succeeds_when_gone
         [OF id tr gone, of False "[]" "PStr ''linux''" False]
       stop_raises_delete_succeeds_when_gone
         [OF idx tr gone, of False "[]" "PStr ''linux''" False]
       id tr gone ext
  show ?thesis by simp
qed

text \<open>
  C2, as the code has it. The specification joins two operations. On an existing resource:
  the deprecated \<open>resize\<close>, which reads the sizes from the runtime properties, raises
  the non-recoverable error when neither is set; \<open>resize_server\<close>, which takes
  \<open>cpus\<close> and \<open>memory\<close> as arguments, logs and returns successfully when neither
  is truthy, and otherwise, when the platform resize succeeds and an expected
  configuration is stored, leaves \<open>summary.numCpu\<close> equal to a truthy \<open>cpus\<close> and
  \<open>summary.memorySizeMB\<close> equal to a truthy \<open>memory\<close>.
\<close>

theorem resize_contract:
  assumes found: "get_server_by_context cl c server os_family = Inr (Some server_obj)"
  shows "(get_vm_name c server os_family = Inr vm_name
          \<and> \<not> truthy (rp_get (rp_cpus (runtime c))) \<and> \<not> truthy (rp_get (rp_memory (runtime c)))
          \<longrightarrow> resize cl c server os_family
                = Inl (NonRecoverableError (Text ''Server resize parameters should be specified.'')))
       \<and> (\<not> truthy cpus \<and> \<not> truthy memory
          \<longrightarrow> resize_server cl c server os_family cpus memory
                = Inr (log Info ''Attempt to resize Server with no sizes specified'' [] c))
       \<and> ((truthy cpus \<or> truthy memory)
          \<and> client_resize_server cl (Some server_obj) cpus memory = None
          \<and> rp_expected_configuration (runtime c) \<noteq> None
          \<longrightarrow> (\<exists>c'. resize_server cl c server os_family cpus memory = Inr c'
                \<and> (truthy cpus \<longrightarrow> expected_summary_get c' ''numCpu'' = Some cpus)
                \<and> (truthy memory \<longrightarrow> expected_summary_get c' ''memorySizeMB'' = Some memory)))"
  using found
  by (auto simp: resize_def resize_server_def Let_def set_expected_summary_def map_of_dict_set
      expected_summary_get_def)

text \<open>
  The statement of the specification holds of neither operation: \<open>resize_server\<close> with
  \<open>cpus = None\<close> and \<open>memory = None\<close> returns successfully, and \<open>resize\<close> with 4
  CPUs requested returns with \<open>summary.numCpu\<close> still 2.
\<close>

theorem resize_server_no_sizes_returns:
  "get_server_by_context (client_with vm_42) ctx_created [] (PStr ''linux'') = Inr (Some vm_42)
   \<and> resize_server (client_with vm_42) ctx_created [] (PStr ''linux'') PNone PNone
       = Inr (log Info ''Attempt to resize Server with no sizes specified'' [] ctx_created)
   \<and> rp_cpus (runtime ctx_cpus4) = Some (PInt 4)
   \<and> expected_summary_get ctx_cpus4 ''numCpu'' = Some (PInt 2)
   \<and> resize (client_with vm_42) ctx_cpus4 [] (PStr ''linux'')
       = Inr (log Info ''Succeeded resizing server {name}.'' [PStr ''web-0042'']
           (log Info
              ''Preparing to resize server {name}, with cpus: {cpus}, and memory: {memory}''
              [PStr ''web-0042'', PInt 4, PStr ''no changes'']
              (log Warn
                 ''This operation may be removed at any point from cloudify-vsphere-plugin==3. Please use resize_server (cloudify.interfaces.modify.resize) instead.''
                 [] ctx_cpus4)))
   \<and> expected_summary_get
         (log Info ''Succeeded resizing server {name}.'' [PStr ''web-0042'']
           (log Info
              ''Preparing to resize server {name}, with cpus: {cpus}, and memory: {memory}''
              [PStr ''web-0042'', PInt 4, PStr ''no changes'']
              (log Warn
                 ''This operation may be removed at any point from cloudify-vsphere-plugin==3. Please use resize_server (cloudify.interfaces.modify.resize) instead.''
                 [] ctx_cpus4))) ''numCpu''
       = Some (PInt 2)"
  by (simp add: resize_server_def resize_def get_server_by_context_def get_vm_name_def
      client_with_def client_gone_def ctx_created_def ctx_cpus4_def ctx_of_def rp_created_def
      rp_empty_def rp_get_def log_def Let_def expected_summary_get_def)

text \<open>The three cases on the example instance; \<open>cpus = 4\<close> leaves \<open>numCpu = 4\<close>.\<close>

theorem resize_contract_witness:
  "get_server_by_context (client_with vm_42) ctx_created [] (PStr ''linux'') = Inr (Some vm_42)
   \<and> get_vm_name ctx_created [] (PStr ''linux'') = Inr (PStr ''web-0042'')
   \<and> \<not> truthy (rp_get (rp_cpus (runtime ctx_created)))
   \<and> \<not> truthy (rp_get (rp_memory (runtime ctx_created)))
   \<and> resize (client_with vm_42) ctx_created [] (PStr ''linux'')
       = Inl (NonRecoverableError (Text ''Server resize parameters should be specified.''))
   \<and> resize_server (client_with vm_42) ctx_created [] (PStr ''linux'') PNone PNone
       = Inr (log Info ''Attempt to resize Server with no sizes specified'' [] ctx_created)
   \<and> client_resize_server (client_with vm_42) (Some vm_42) (PInt 4) PNone = None
   \<and> rp_expected_configuration (runtime ctx_created) \<noteq> None
   \<and> (\<exists>c'. resize_server (client_with vm_42) ctx_created [] (PStr ''linux'') (PInt 4) PNone
               = Inr c'
          \<and> expected_summary_get c' ''numCpu'' = Some (PInt 4))"
proof -
  have found: "get_server_by_context (client_with vm_42) ctx_created [] (PStr ''linux'')
               = Inr (Some vm_42)"
    by (simp add: get_server_by_context_def client_with_def client_gone_def ctx_created_def
        ctx_of_def rp_created_def rp_empty_def)
  have name: "get_vm_name ctx_created [] (PStr ''linux'') = Inr (PStr ''web-0042'')"
    by (simp add: get_vm_name_def ctx_created_def ctx_of_def rp_created_def rp_empty_def
        rp_get_def)
  have none: "\<not> truthy (rp_get (rp_cpus (runtime ctx_created)))"
    "\<not> truthy (rp_get (rp_memory (runtime ctx_created)))"
    by (simp_all add: ctx_created_def ctx_of_def rp_created_def rp_empty_def rp_get_def)
  have ok: "client_resize_server (client_with vm_42) (Some vm_42) (PInt 4) PNone = None"
    by (simp add: client_with_def client_gone_def)
  have ec: "rp_expected_configuration (runtime ctx_created) \<noteq> None"
    by (simp add: ctx_created_def ctx_of_def rp_created_def rp_empty_def)
  from resize_contract [OF found, of "PStr ''web-0042''" PNone PNone]
       resize_contract [OF found, of "PStr ''web-0042''" "PInt 4" PNone]
       found name none ok ec
  show ?thesis by simp
qed

section \<open>Readiness poller: properties\<close>






lemma pop_min_wait_time_start_ip [simp]:
  "rp_ip (runtime (pop_min_wait_time_start c)) = rp_ip (runtime c)"
  by (simp add: pop_min_wait_time_start_def)






section \<open>Drift detector and reconciler: properties\<close>

text \<open>
  With an iterable list of stored networks the three loops over the devices raise
  nothing; a foreign Ethernet device leaves a sentinel among the attached networks and
  is among the devices to remove.
\<close>

lemma existing_networks_of_total:
  "\<exists>refs. existing_networks_of i devs (Some nets) = Inr refs"
proof (induction devs arbitrary: i)
  case Nil
  show ?case by simp
next
  case (Cons d devs)
  from Cons.IH [of "Suc i"] obtain rest where
    "existing_networks_of (Suc i) devs (Some nets) = Inr rest" by blast
  then show ?case by simp
qed

lemma existing_networks_of_foreign:
  assumes "dev \<in> set devs" and "is_ethernet_card dev"
    and "\<forall>network \<in> set nets. \<not> py_eq (macAddress dev) (dict_get network ''mac'')"
    and "existing_networks_of i devs (Some nets) = Inr refs"
  shows "\<exists>j. Sentinel j \<in> set refs"
  using assms
proof (induction devs arbitrary: i refs)
  case Nil
  then show ?case by simp
next
  case (Cons d devs)
  obtain rest where rest: "existing_networks_of (Suc i) devs (Some nets) = Inr rest"
    using existing_networks_of_total by blast
  show ?case
  proof (cases "d = dev")
    case True
    from Cons.prems(3) have "find (\<lambda>network. py_eq (macAddress dev) (dict_get network ''mac'')) nets = None"
      by (simp add: find_None_iff)
    with True Cons.prems(2,4) rest show ?thesis by auto
  next
    case False
    with Cons.prems(1) have "dev \<in> set devs" by simp
    from Cons.IH [OF this Cons.prems(2,3) rest] obtain j where "Sentinel j \<in> set rest" ..
    with Cons.prems(4) rest show ?thesis by (auto split: if_splits)
  qed
qed

lemma real_networks_of_total: "\<exists>names. real_networks_of devs (Some nets) = Inr names"
proof (induction devs)
  case Nil
  show ?case by simp
next
  case (Cons d devs)
  then obtain rest where "real_networks_of devs (Some nets) = Inr rest" by blast
  then show ?case by simp
qed

lemma nics_for_remove_of_total:
  "\<exists>nics. nics_for_remove_of names_rm devs (Some nets) = Inr nics"
proof (induction devs)
  case Nil
  show ?case by simp
next
  case (Cons d devs)
  then obtain rest where "nics_for_remove_of names_rm devs (Some nets) = Inr rest" by blast
  then show ?case by simp
qed

lemma nics_for_remove_of_foreign:
  assumes "dev \<in> set devs" and "is_ethernet_card dev"
    and "\<forall>network \<in> set nets. \<not> py_eq (macAddress dev) (dict_get network ''mac'')"
    and "nics_for_remove_of names_rm devs (Some nets) = Inr nics"
  shows "dev \<in> set nics"
  using assms
proof (induction devs arbitrary: nics)
  case Nil
  then show ?case by simp
next
  case (Cons d devs)
  obtain rest where rest: "nics_for_remove_of names_rm devs (Some nets) = Inr rest"
    using nics_for_remove_of_total by blast
  show ?case
  proof (cases "d = dev")
    case True
    from Cons.prems(3) have "find (\<lambda>network. py_eq (macAddress dev) (dict_get network ''mac'')) nets = None"
      by (simp add: find_None_iff)
    with True Cons.prems(2,4) rest show ?thesis by auto
  next
    case False
    with Cons.prems(1) have "dev \<in> set devs" by simp
    from Cons.IH [OF this Cons.prems(2,3) rest] have "dev \<in> set rest" .
    with Cons.prems(4) rest show ?thesis by (auto split: if_splits)
  qed
qed

lemma update_networks_foreign:
  assumes id: "rp_vsphere_server_id (runtime cs) = Some server_id"
    and obj: "get_server_by_id cl server_id = Some server_obj"
    and nets: "persisted_networks cs = Some networks"
    and dev: "dev \<in> set (so_devices server_obj)" "is_ethernet_card dev"
    and foreign: "\<forall>network \<in> set networks. \<not> py_eq (macAddress dev) (dict_get network ''mac'')"
  shows "(\<forall>plan c2. update_networks cl cs = Inr (plan, c2) \<longrightarrow> dev \<in> set (nics_for_remove plan))
       \<and> (\<forall>new_networks cn.
             handle_networks cs (node_networking_or_empty cs) = Inr (new_networks, cn) \<longrightarrow>
             (\<exists>plan. update_networks cl cs = Inr (plan, cn) \<and> dev \<in> set (nics_for_remove plan)))"
proof -
  obtain real where real: "real_networks_of (so_devices server_obj) (Some networks) = Inr real"
    using real_networks_of_total by blast
  note rm = nics_for_remove_of_foreign [OF dev foreign]
  show ?thesis
  proof (cases "handle_networks cs (node_networking_or_empty cs)")
    case (Inl e)
    then show ?thesis by (simp add: update_networks_def id obj nets real Let_def)
  next
    case (Inr res)
    obtain new_networks cn where res: "res = (new_networks, cn)" by (cases res)
    let ?to_remove = "filter (\<lambda>network. \<not> py_in network
                         (map (\<lambda>network. dict_get network ''name'') new_networks)) real"
    obtain nics where
      nics: "nics_for_remove_of ?to_remove (so_devices server_obj) (Some networks) = Inr nics"
      using nics_for_remove_of_total by blast
    from rm [OF nics] have "dev \<in> set nics" .
    with Inr res nics show ?thesis
      by (simp add: update_networks_def id obj nets real Let_def)
  qed
qed


lemma update_spec_fields:
  "update_spec cl c = Inr c' \<Longrightarrow>
   rp_vsphere_server_id (runtime c') = rp_vsphere_server_id (runtime c)
   \<and> persisted_networks c' = persisted_networks c"
  by (auto simp: update_spec_def set_expected_summary_def persisted_networks_def Let_def
      split: option.splits sum.splits)

lemma pop_update_markers_fields:
  "rp_vsphere_server_id (runtime (pop_update_markers c)) = rp_vsphere_server_id (runtime c)"
  "persisted_networks (pop_update_markers c) = persisted_networks c"
  by (simp_all add: pop_update_markers_def persisted_networks_def)

text \<open>
  C5. Let the instance have a truthy server id for which the platform finds the VM, an
  iterable list of stored networks, and declared sizes that can be compared with the
  expected summary; let \<open>utils.check_drift\<close> report a difference between any two lists
  that differ as sets. For every such list of stored networks and every device list: if
  an Ethernet device bears a MAC address that matches no stored network, then
  \<open>check_drift\<close> returns \<open>True\<close> and sets \<open>network_update\<close>; every result the
  subsequent \<open>update\<close> returns holds that device in its removal set; and \<open>update\<close>
  does return such a result whenever its spec part (if run) and the re-resolution of the
  declared networks raise nothing.
\<close>

theorem foreign_device_drift:
  assumes id: "rp_vsphere_server_id (runtime c) = Some server_id" and tr: "truthy server_id"
    and obj: "get_server_by_id cl server_id = Some server_obj"
    and nets: "persisted_networks c = Some networks"
    and dev: "dev \<in> set (so_devices server_obj)" "is_ethernet_card dev"
    and foreign: "\<forall>network \<in> set networks. \<not> py_eq (macAddress dev) (dict_get network ''mac'')"
    and diff: "\<forall>a b. set a \<noteq> set b \<longrightarrow> utils_check_drift_networks cl a b"
    and spec: "spec_drift c = Inr spec_differs"
  shows "\<exists>c1. check_drift cl c = Inr (True, c1)
     \<and> rp_network_update (runtime c1) = Some (PBool True)
     \<and> (\<forall>r c2. update cl c1 = Inr (r, c2) \<longrightarrow>
           (\<exists>plan. r = Some plan \<and> dev \<in> set (nics_for_remove plan)))
     \<and> (\<forall>cs new_networks cn.
           (if truthy (rp_get (rp_spec_update (runtime c1)))
            then update_spec cl (pop_update_markers c1) else Inr (pop_update_markers c1)) = Inr cs
           \<and> handle_networks cs (node_networking_or_empty cs) = Inr (new_networks, cn) \<longrightarrow>
           (\<exists>plan. update cl c1 = Inr (Some plan, cn) \<and> dev \<in> set (nics_for_remove plan)))"
proof -
  obtain refs where refs: "existing_networks_of 0 (so_devices server_obj) (Some networks) = Inr refs"
    using existing_networks_of_total by blast
  from existing_networks_of_foreign [OF dev foreign refs] obtain j where j: "Sentinel j \<in> set refs" ..
  let ?new = "map (\<lambda>network. NetName (dict_get network ''name'')) (node_connect_networks c)"
  from j have "set refs \<noteq> set ?new" by auto
  with diff have d: "utils_check_drift_networks cl refs ?new" by blast
  define c1 where "c1 =
    (let c' = c\<lparr>runtime := (runtime c)\<lparr>rp_network_update := Some (PBool True)\<rparr>\<rparr>
     in if spec_differs then c'\<lparr>runtime := (runtime c')\<lparr>rp_spec_update := Some (PBool True)\<rparr>\<rparr>
        else c')"
  have cd: "check_drift cl c = Inr (True, c1)"
    using id tr obj nets refs d spec
    by (simp add: check_drift_def rp_get_def Let_def c1_def)
  have nu: "rp_network_update (runtime c1) = Some (PBool True)"
    and id1: "rp_vsphere_server_id (runtime c1) = Some server_id"
    and nets1: "persisted_networks c1 = Some networks"
    using id nets by (simp_all add: c1_def Let_def persisted_networks_def)
  have tnu: "truthy (rp_get (rp_network_update (runtime c1)))" by (simp add: nu rp_get_def)
  have key: "\<And>cs. (if truthy (rp_get (rp_spec_update (runtime c1)))
            then update_spec cl (pop_update_markers c1) else Inr (pop_update_markers c1)) = Inr cs
        \<Longrightarrow> rp_vsphere_server_id (runtime cs) = Some server_id
            \<and> persisted_networks cs = Some networks"
    using update_spec_fields [of cl "pop_update_markers c1"] pop_update_markers_fields [of c1]
      id1 nets1
    by (auto split: if_splits)
  have upd: "update cl c1 =
      (case (if truthy (rp_get (rp_spec_update (runtime c1)))
             then update_spec cl (pop_update_markers c1) else Inr (pop_update_markers c1)) of
         Inl e \<Rightarrow> Inl e
       | Inr cs \<Rightarrow>
           (case update_networks cl cs of
              Inl e \<Rightarrow> Inl e
            | Inr (plan, c2) \<Rightarrow> Inr (Some plan, c2)))"
    using tnu by (simp add: update_def Let_def cong: sum.case_cong)
  show ?thesis
  proof (intro exI [of _ c1] conjI allI impI)
    show "check_drift cl c = Inr (True, c1)" by (rule cd)
    show "rp_network_update (runtime c1) = Some (PBool True)" by (rule nu)
  next
    fix r c2
    assume u: "update cl c1 = Inr (r, c2)"
    then obtain cs where cs: "(if truthy (rp_get (rp_spec_update (runtime c1)))
            then update_spec cl (pop_update_markers c1) else Inr (pop_update_markers c1)) = Inr cs"
      unfolding upd by (auto split: sum.splits)
    with u obtain plan where un: "update_networks cl cs = Inr (plan, c2)" and r: "r = Some plan"
      unfolding upd by (auto split: sum.splits prod.splits)
    from key [OF cs] have "rp_vsphere_server_id (runtime cs) = Some server_id"
      and "persisted_networks cs = Some networks" by simp_all
    from update_networks_foreign [OF this(1) obj this(2) dev foreign] un
    have "dev \<in> set (nics_for_remove plan)" by blast
    with r show "\<exists>plan. r = Some plan \<and> dev \<in> set (nics_for_remove plan)" by blast
  next
    fix cs new_networks cn
    assume a: "(if truthy (rp_get (rp_spec_update (runtime c1)))
            then update_spec cl (pop_update_markers c1) else Inr (pop_update_markers c1)) = Inr cs
           \<and> handle_networks cs (node_networking_or_empty cs) = Inr (new_networks, cn)"
    from key [of cs] a have "rp_vsphere_server_id (runtime cs) = Some server_id"
      and "persisted_networks cs = Some networks" by simp_all
    from update_networks_foreign [OF this(1) obj this(2) dev foreign] a
    obtain plan where "update_networks cl cs = Inr (plan, cn)"
      and "dev \<in> set (nics_for_remove plan)" by blast
    with a show "\<exists>plan. update cl c1 = Inr (Some plan, cn) \<and> dev \<in> set (nics_for_remove plan)"
      unfolding upd by simp
  qed
qed


text \<open>
  The stored network \<open>{name: net1, mac: AA:AA:AA:AA:AA:AA}\<close> and a device with the MAC
  address \<open>BB:BB:BB:BB:BB:BB\<close>: drift is reported and the device is to be removed.
\<close>

lemma check_drift_net1:
  "check_drift (client_with vm_foreign) ctx_net1 = Inr (True, ctx_net1_drift)"
  by (simp add: check_drift_def client_with_def client_gone_def vm_foreign_def vm_42_def
      dev_foreign_def ctx_net1_def ctx_net1_drift_def ctx_of_def rp_created_def rp_empty_def
      rp_get_def persisted_networks_def node_connect_networks_def connect_networks_or_empty_def
      spec_drift_def summary_differs_def node_server_get_def dict_get_def Let_def)

lemma handle_networks_net1:
  "\<exists>new_networks cn.
     handle_networks (pop_update_markers ctx_net1_drift)
       (node_networking_or_empty (pop_update_markers ctx_net1_drift)) = Inr (new_networks, cn)"
  by (simp add: handle_networks_def get_connected_networks_def pop_update_markers_def
      node_networking_or_empty_def connect_networks_or_empty_def ctx_net1_drift_def ctx_net1_def
      ctx_of_def rp_created_def rp_empty_def flagged_def dict_get_default_def dict_get_def
      validate_connect_network_def network_validations_def del_key_def Let_def)

theorem foreign_device_drift_witness:
  "rp_vsphere_server_id (runtime ctx_net1) = Some (PStr ''vm-42'')
   \<and> get_server_by_id (client_with vm_foreign) (PStr ''vm-42'') = Some vm_foreign
   \<and> persisted_networks ctx_net1
       = Some [[(''name'', PStr ''net1''), (''mac'', PStr ''AA:AA:AA:AA:AA:AA'')]]
   \<and> dev_foreign \<in> set (so_devices vm_foreign)
   \<and> is_ethernet_card dev_foreign
   \<and> macAddress dev_foreign = PStr ''BB:BB:BB:BB:BB:BB''
   \<and> spec_drift ctx_net1 = Inr False
   \<and> check_drift (client_with vm_foreign) ctx_net1 = Inr (True, ctx_net1_drift)
   \<and> rp_network_update (runtime ctx_net1_drift) = Some (PBool True)
   \<and> (\<exists>plan c2. update (client_with vm_foreign) ctx_net1_drift = Inr (Some plan, c2)
          \<and> dev_foreign \<in> set (nics_for_remove plan))"
proof -
  let ?nets = "[[(''name'', PStr ''net1''), (''mac'', PStr ''AA:AA:AA:AA:AA:AA'')]]"
  have id: "rp_vsphere_server_id (runtime ctx_net1) = Some (PStr ''vm-42'')"
    and nets: "persisted_networks ctx_net1 = Some ?nets"
    and spec: "spec_drift ctx_net1 = Inr False"
    by (simp_all add: ctx_net1_def ctx_of_def rp_created_def rp_empty_def persisted_networks_def
        spec_drift_def summary_differs_def node_server_get_def Let_def)
  have tr: "truthy (PStr ''vm-42'')" by simp
  have obj: "get_server_by_id (client_with vm_foreign) (PStr ''vm-42'') = Some vm_foreign"
    by (simp add: client_with_def client_gone_def)
  have dev: "dev_foreign \<in> set (so_devices vm_foreign)" "is_ethernet_card dev_foreign"
    and mac: "macAddress dev_foreign = PStr ''BB:BB:BB:BB:BB:BB''"
    by (simp_all add: vm_foreign_def dev_foreign_def)
  have foreign: "\<forall>network \<in> set ?nets.
      \<not> py_eq (macAddress dev_foreign) (dict_get network ''mac'')"
    by (simp add: dev_foreign_def dict_get_def)
  have diff: "\<forall>a b. set a \<noteq> set b \<longrightarrow> utils_check_drift_networks (client_with vm_foreign) a b"
    by (simp add: client_with_def client_gone_def)
  from foreign_device_drift [OF id tr obj nets dev foreign diff spec]
  obtain c1 where cd: "check_drift (client_with vm_foreign) ctx_net1 = Inr (True, c1)"
    and nu: "rp_network_update (runtime c1) = Some (PBool True)"
    and total: "\<forall>cs new_networks cn.
           (if truthy (rp_get (rp_spec_update (runtime c1)))
            then update_spec (client_with vm_foreign) (pop_update_markers c1)
            else Inr (pop_update_markers c1)) = Inr cs
           \<and> handle_networks cs (node_networking_or_empty cs) = Inr (new_networks, cn) \<longrightarrow>
           (\<exists>plan. update (client_with vm_foreign) c1 = Inr (Some plan, cn)
              \<and> dev_foreign \<in> set (nics_for_remove plan))"
    by blast
  from cd check_drift_net1 have c1: "c1 = ctx_net1_drift" by simp
  have su: "\<not> truthy (rp_get (rp_spec_update (runtime ctx_net1_drift)))"
    by (simp add: ctx_net1_drift_def ctx_net1_def ctx_of_def rp_created_def rp_empty_def
        rp_get_def)
  from handle_networks_net1 obtain new_networks cn where
    "handle_networks (pop_update_markers ctx_net1_drift)
       (node_networking_or_empty (pop_update_markers ctx_net1_drift)) = Inr (new_networks, cn)"
    by blast
  with total [unfolded c1] su
  have "\<exists>plan. update (client_with vm_foreign) ctx_net1_drift = Inr (Some plan, cn)
              \<and> dev_foreign \<in> set (nics_for_remove plan)"
    by simp
  with id obj nets dev mac spec cd nu c1 show ?thesis by blast
qed

end
